theory Spec2Isabelle
  imports Main "HOL-Library.Word" "HOL-Library.AList"
begin

section \<open>The REST client of the driver (restful.go)\<close>

text \<open>
  A shallow embedding of \<^verbatim>\<open>restful.go\<close>: the query-lifecycle engine of the driver.
  The client struct is a record, Go's \<^verbatim>\<open>error\<close> values are a datatype, every
  early return is a branch, and the effects of a call (HTTP round trips, token loads,
  sleeps of the retry loop) are appended to a trace carried by an explicit world.
\<close>

subsection \<open>Strings\<close>

text \<open>\<^verbatim>\<open>strings.HasPrefix(s, prefix)\<close> and \<^verbatim>\<open>strings.Contains(s, substr)\<close>.\<close>

fun strings_HasPrefix :: "string \<Rightarrow> string \<Rightarrow> bool" where
  "strings_HasPrefix s [] = True"
| "strings_HasPrefix [] (p # ps) = False"
| "strings_HasPrefix (c # s) (p # ps) = (c = p \<and> strings_HasPrefix s ps)"

fun strings_Contains :: "string \<Rightarrow> string \<Rightarrow> bool" where
  "strings_Contains [] substr = (substr = [])"
| "strings_Contains (c # s) substr =
     (strings_HasPrefix (c # s) substr \<or> strings_Contains s substr)"

subsection \<open>Request classes and errors\<close>

datatype RequestType = Query | Page | Final | Kill

text \<open>
  The in-band error payload of a response (\<^verbatim>\<open>*QueryError\<close>); its type is declared in
  another file and this engine only tests it against \<^verbatim>\<open>nil\<close> and wraps it.
\<close>

type_synonym QueryError = string

text \<open>
  Go error values. The three sentinels are compared by identity; \<open>Wrap e msg\<close> is
  \<^verbatim>\<open>errors.Wrap(e, msg)\<close> (and \<^verbatim>\<open>errors.Errorf\<close>/\<^verbatim>\<open>errors.New\<close> give \<open>ErrorsNew\<close>);
  \<open>Foreign\<close> is an error value returned by a library or a collaborator (JSON, the
  token loader); \<open>RetryError\<close> is the error log \<^verbatim>\<open>retry.Do\<close> returns when it gives up,
  holding the recorded error of each attempt in order; \<open>Panic\<close> is a run-time panic
  (an index out of range, a call through a nil interface), which is no error value in
  Go but ends the call all the same.
\<close>

datatype goerror =
    ContextCanceled
  | ErrDoRequest
  | ErrReadResponse
  | ErrorsNew string
  | APIError string int string
  | InBand QueryError
  | Foreign string
  | Wrap goerror string
  | RetryError "goerror list"
  | Panic string

text \<open>\<^verbatim>\<open>errors.Is(err, target)\<close> for a sentinel target: walk the chain of wrapped causes.\<close>

fun errors_Is :: "goerror \<Rightarrow> goerror \<Rightarrow> bool" where
  "errors_Is (Wrap e msg) target = errors_Is e target"
| "errors_Is e target = (e = target)"

subsection \<open>Data of the protocol\<close>

record QueryResponse =
  ID :: string
  Data :: "string list list"
  NextURI :: string
  FinalURI :: string
  KillURI :: string
  Error :: "QueryError option"
  Session :: "string option"
  Stats :: "string option"

record SessionState =
  Database :: string
  Role :: string
  SecondaryRoles :: "string list option"
  Settings :: "(string \<times> string) list"

record PaginationConfig =
  pc_MaxRowsPerPage :: "64 word"
  pc_MaxRowsInBuffer :: "64 word"
  pc_WaitTime :: "64 word"

record StageAttachmentConfig =
  Location :: string
  FileFormatOptions :: "string \<rightharpoonup> string"
  CopyOptions :: "string \<rightharpoonup> string"

record QueryRequest =
  SQL :: string
  Pagination :: "PaginationConfig option"
  rq_Session :: "string option"
  StageAttachment :: "StageAttachmentConfig option"

record StageLocation =
  Name :: string
  Path :: string

record PresignedResponse =
  Method :: string
  Headers :: "(string \<times> string) list"
  URL :: string

text \<open>
  The call context: the values the engine reads from it (each read is followed by a
  type assertion to \<^verbatim>\<open>string\<close>) and the time left until its deadline, when it has one.
\<close>

datatype ContextKey = ContextKeyQueryID | ContextUserAgentID

datatype ctxval = StringVal string | OtherVal

record go_context =
  ctx_values :: "(ContextKey \<times> ctxval) list"
  ctx_timeout :: "nat option"

definition ctx_string :: "go_context \<Rightarrow> ContextKey \<Rightarrow> string option" where
  "ctx_string ctx k =
     (case map_of (ctx_values ctx) k of Some (StringVal s) \<Rightarrow> Some s | _ \<Rightarrow> None)"

text \<open>\<^verbatim>\<open>context.WithTimeout(ctx, d)\<close>: the earlier of the parent's deadline and \<open>d\<close>.\<close>

definition context_WithTimeout :: "go_context \<Rightarrow> nat \<Rightarrow> go_context" where
  "context_WithTimeout ctx d =
     ctx\<lparr>ctx_timeout := Some (case ctx_timeout ctx of None \<Rightarrow> d | Some t \<Rightarrow> min t d)\<rparr>"

text \<open>The header names are constants of the package, declared in another file.\<close>

datatype header_key =
    WarehouseRoute | UserAgent | DatabendTenantHeader | DatabendWarehouseHeader
  | DatabendQueryIDHeader | Authorization | ContentType | Accept

type_synonym http_Header = "(header_key \<times> string) list"

definition header_Set :: "header_key \<Rightarrow> string \<Rightarrow> http_Header \<Rightarrow> http_Header" where
  "header_Set k v hs = AList.update k v hs"

definition header_Get :: "http_Header \<Rightarrow> header_key \<Rightarrow> string option" where
  "header_Get hs k = map_of hs k"

record http_request =
  req_method :: string
  req_url :: string
  req_host :: string
  req_header :: http_Header
  req_body :: "QueryRequest option"
  req_ctx :: go_context

text \<open>
  One HTTP round trip as the executor sees it: \<^verbatim>\<open>c.cli.Do\<close> fails, or the body cannot be
  read, or a status, a content type and a body arrive.
\<close>

datatype http_result =
    DoFailed string
  | ReadFailed string
  | Response int string string

subsection \<open>The environment\<close>

text \<open>
  What the package declares outside \<^verbatim>\<open>restful.go\<close> and what the libraries and the
  network do, taken as parameters: the constants \<^verbatim>\<open>version\<close>, \<^verbatim>\<open>jsonContentType\<close> and
  \<^verbatim>\<open>ProvisionWarehouseTimeout\<close>, the helper \<^verbatim>\<open>IsProxyErr\<close>, the \<^verbatim>\<open>Error()\<close> text of
  the error types declared elsewhere (\<open>errorText\<close>), the JSON codec, \<^verbatim>\<open>http.NewRequest\<close>,
  \<^verbatim>\<open>interpolateParams\<close>, \<^verbatim>\<open>fmt.Sprintf\<close> of a format with no arguments, and the answer
  of the transport to the \<open>k\<close>-th request sent.
\<close>

record env =
  version :: string
  jsonContentType :: string
  ProvisionWarehouseTimeout :: string
  IsProxyErr :: "goerror \<Rightarrow> bool"
  errorText :: "goerror \<Rightarrow> string"
  marshalRequest :: "QueryRequest \<Rightarrow> goerror option"
  newRequest :: "string \<Rightarrow> string \<Rightarrow> goerror option"
  unmarshalResponse :: "string \<Rightarrow> QueryResponse \<Rightarrow> goerror option \<times> QueryResponse"
  unmarshalSession :: "string \<Rightarrow> SessionState \<Rightarrow> SessionState"
  unmarshalHeaders :: "string \<Rightarrow> goerror + (string \<times> string) list"
  interpolateParams :: "string \<Rightarrow> string option list \<Rightarrow> goerror option \<times> string"
  fmt_Sprintf :: "string \<Rightarrow> string"
  transport :: "nat \<Rightarrow> http_request \<Rightarrow> http_result"

text \<open>\<^verbatim>\<open>err.Error()\<close>: a wrapped error prints its message, a colon and its cause.\<close>

fun Error_text :: "env \<Rightarrow> goerror \<Rightarrow> string" where
  "Error_text E (Wrap e msg) = msg @ '': '' @ Error_text E e"
| "Error_text E ContextCanceled = ''context canceled''"
| "Error_text E (ErrorsNew s) = s"
| "Error_text E (Foreign s) = s"
| "Error_text E e = errorText E e"

subsection \<open>The world: what a call has done so far\<close>

datatype event =
    HTTPDo http_request
  | TokenLoad bool
  | Sleep nat
  | TrackStats string string

record world =
  trace :: "event list"
  sends :: nat
  loads :: nat

definition emit :: "event \<Rightarrow> world \<Rightarrow> world" where
  "emit ev w = w\<lparr>trace := trace w @ [ev]\<rparr>"

definition time_Sleep :: "nat \<Rightarrow> world \<Rightarrow> world" where
  "time_Sleep d w = emit (Sleep d) w"

subsection \<open>The retry policy\<close>

text \<open>
  \<^verbatim>\<open>retry.Do\<close> of the retry library with the options \<^verbatim>\<open>DoRetry\<close> passes (a retry
  predicate, a delay, a number of attempts, the fixed delay type): the attempt counter
  \<open>n\<close> runs from 0; an attempt that returns no error ends the loop with no error; a
  failed attempt is recorded, ends the loop when the predicate rejects its error or it
  was the last attempt, and is otherwise followed by a sleep of \<open>delay\<close> seconds.
  The function retried is a Go closure: it acts on the variables it captures (a state
  of type \<open>'v\<close>, here the result holder of a request) and on the world.
\<close>

type_synonym 'v RetryableFunc = "'v \<times> world \<Rightarrow> goerror option \<times> 'v \<times> world"

function retry_Do_loop ::
  "'v RetryableFunc \<Rightarrow> (goerror option \<Rightarrow> bool) \<Rightarrow> nat \<Rightarrow> nat \<Rightarrow>
     nat \<Rightarrow> goerror list \<Rightarrow> 'v \<times> world \<Rightarrow> goerror option \<times> 'v \<times> world" where
  "retry_Do_loop f retryIf delay attempts n errorLog s =
     (if n < attempts then
        (case f s of
           (None, s') \<Rightarrow> (None, s')
         | (Some err, s') \<Rightarrow>
             if \<not> retryIf (Some err) then (Some (RetryError (errorLog @ [err])), s')
             else if n = attempts - 1 then (Some (RetryError (errorLog @ [err])), s')
             else retry_Do_loop f retryIf delay attempts (n + 1) (errorLog @ [err])
                    (apsnd (time_Sleep delay) s'))
      else (Some (RetryError errorLog), s))"
  by pat_completeness auto
termination
  by (relation "measure (\<lambda>(f, retryIf, delay, attempts, n, errorLog, s). attempts - n)") auto

definition retry_Do ::
  "'v RetryableFunc \<Rightarrow> (goerror option \<Rightarrow> bool) \<Rightarrow> nat \<Rightarrow> nat \<Rightarrow>
     'v \<times> world \<Rightarrow> goerror option \<times> 'v \<times> world" where
  "retry_Do f retryIf delay attempts s = retry_Do_loop f retryIf delay attempts 0 [] s"

text \<open>The retry predicate of \<^verbatim>\<open>DoRetry\<close> for request class \<open>t\<close>.\<close>

definition RetryIf :: "env \<Rightarrow> RequestType \<Rightarrow> goerror option \<Rightarrow> bool" where
  "RetryIf E t err =
     (case err of
        None \<Rightarrow> False
      | Some e \<Rightarrow>
          if errors_Is e ContextCanceled then False
          else if errors_Is e ErrDoRequest \<or> errors_Is e ErrReadResponse \<or> IsProxyErr E e
          then True
          else if t = Query \<and> strings_Contains (Error_text E e) (ProvisionWarehouseTimeout E)
          then True
          else False)"

definition DoRetry ::
  "env \<Rightarrow> 'v RetryableFunc \<Rightarrow> RequestType \<Rightarrow> 'v \<times> world \<Rightarrow> goerror option \<times> 'v \<times> world" where
  "DoRetry E f t s =
     (let delay = (if t = Query then 2 else 1);
          attempts = (if t = Query then 5 else 3)
      in retry_Do (\<lambda>s. f s) (RetryIf E t) delay attempts s)"

subsection \<open>The client\<close>

text \<open>
  Modelled from the spec: the result cursor \<^verbatim>\<open>nextRows\<close> and its \<^verbatim>\<open>Close\<close> are declared
  in another file; the specification says that starting a new query closes the cursor
  still open for the previous one, so a cursor is open or closed and \<^verbatim>\<open>Close\<close> closes it.
\<close>

record nextRows =
  isClosed :: bool

definition rows_Close :: "nextRows \<Rightarrow> nextRows" where
  "rows_Close r = r\<lparr>isClosed := True\<rparr>"

type_synonym AuthMethod = string

definition AuthMethodUserPassword :: AuthMethod where
  "AuthMethodUserPassword = ''userPassword''"

definition AuthMethodAccessToken :: AuthMethod where
  "AuthMethodAccessToken = ''accessToken''"

text \<open>
  The client struct. The access-token loader is an interface value: absent, or a
  function that answers the \<open>k\<close>-th load with force flag \<open>b\<close>. The statistics tracker is
  a callback: absent or present (a call of it is recorded in the trace). The mock
  \<^verbatim>\<open>doRequestFunc\<close> maps method, path, request and result holder to an error and the
  result holder.
\<close>

record APIClient =
  SessionID :: string
  QuerySeq :: "64 word"
  rows :: "nextRows option"
  apiEndpoint :: string
  host :: string
  tenant :: string
  warehouse :: string
  database :: string
  user :: string
  password :: string
  sessionStateRaw :: "string option"
  sessionState :: "SessionState option"
  statsTracker :: bool
  accessTokenLoader :: "(nat \<Rightarrow> bool \<Rightarrow> goerror + string) option"
  WaitTimeSeconds :: "64 word"
  MaxRowsInBuffer :: "64 word"
  MaxRowsPerPage :: "64 word"
  PresignedURLDisabled :: bool
  EmptyFieldAs :: string
  doRequestFunc ::
    "(string \<Rightarrow> string \<Rightarrow> QueryRequest option \<Rightarrow> QueryResponse option \<Rightarrow>
        goerror option \<times> QueryResponse option) option"

text \<open>Decimal digits of a number, as \<^verbatim>\<open>%d\<close> prints them.\<close>

fun fmt_nat :: "nat \<Rightarrow> string" where
  "fmt_nat n =
     (if n < 10 then [''0123456789'' ! n]
      else fmt_nat (n div 10) @ [''0123456789'' ! (n mod 10)])"

declare fmt_nat.simps [simp del]

definition fmt_d :: "int \<Rightarrow> string" where
  "fmt_d i = (if i < 0 then ''-'' @ fmt_nat (nat (- i)) else fmt_nat (nat i))"

definition NextQuery :: "APIClient \<Rightarrow> APIClient" where
  "NextQuery c =
     (let c = (case rows c of
                 Some r \<Rightarrow> c\<lparr>rows := Some (rows_Close r)\<rparr>
               | None \<Rightarrow> c)
      in c\<lparr>QuerySeq := QuerySeq c + 1\<rparr>)"

definition GetQueryID :: "APIClient \<Rightarrow> string" where
  "GetQueryID c = SessionID c @ ''.'' @ fmt_d (sint (QuerySeq c))"

definition trackStats :: "APIClient \<Rightarrow> QueryResponse option \<Rightarrow> world \<Rightarrow> world" where
  "trackStats c resp w =
     (case resp of
        None \<Rightarrow> w
      | Some r \<Rightarrow>
          (case Stats r of
             None \<Rightarrow> w
           | Some st \<Rightarrow> if \<not> statsTracker c then w else emit (TrackStats (ID r) st) w))"

definition makeURL :: "env \<Rightarrow> APIClient \<Rightarrow> string \<Rightarrow> string" where
  "makeURL E c path = fmt_Sprintf E (apiEndpoint c @ path)"

definition authMethod :: "APIClient \<Rightarrow> AuthMethod" where
  "authMethod c =
     (if user c \<noteq> [] then AuthMethodUserPassword
      else if accessTokenLoader c \<noteq> None then AuthMethodAccessToken
      else [])"

text \<open>
  A call of \<^verbatim>\<open>c.accessTokenLoader.LoadAccessToken(_, force)\<close>: the load is recorded and
  counted. Through a nil loader the call panics; \<^verbatim>\<open>authMethod\<close> answers
  \<^verbatim>\<open>accessToken\<close> only when a loader is present, so the callers below never get there.
\<close>

definition LoadAccessToken :: "APIClient \<Rightarrow> bool \<Rightarrow> world \<Rightarrow> (goerror + string) \<times> world" where
  "LoadAccessToken c force w =
     (case accessTokenLoader c of
        None \<Rightarrow> (Inl (Panic ''nil pointer dereference''), w)
      | Some load \<Rightarrow> (load (loads w) force, (emit (TokenLoad force) w)\<lparr>loads := loads w + 1\<rparr>))"

text \<open>\<^verbatim>\<open>base64.StdEncoding.EncodeToString\<close> on the bytes of a string.\<close>

definition b64_digit :: "nat \<Rightarrow> char" where
  "b64_digit n = ''ABCDEFGHIJKLMNOPQRSTUVWXYZabcdefghijklmnopqrstuvwxyz0123456789+/'' ! n"

fun b64_bytes :: "nat list \<Rightarrow> string" where
  "b64_bytes [] = []"
| "b64_bytes [a] = [b64_digit (a div 4), b64_digit ((a mod 4) * 16), CHR ''='', CHR ''='']"
| "b64_bytes [a, b] =
     [b64_digit (a div 4), b64_digit ((a mod 4) * 16 + b div 16),
      b64_digit ((b mod 16) * 4), CHR ''='']"
| "b64_bytes (a # b # c # bs) =
     [b64_digit (a div 4), b64_digit ((a mod 4) * 16 + b div 16),
      b64_digit ((b mod 16) * 4 + c div 64), b64_digit (c mod 64)] @ b64_bytes bs"

definition base64_EncodeToString :: "string \<Rightarrow> string" where
  "base64_EncodeToString s = b64_bytes (map of_char s)"

definition encode :: "string \<Rightarrow> string \<Rightarrow> string" where
  "encode name key = base64_EncodeToString (name @ '':'' @ key)"

definition makeHeaders ::
  "env \<Rightarrow> APIClient \<Rightarrow> go_context \<Rightarrow> world \<Rightarrow> (goerror + http_Header) \<times> world" where
  "makeHeaders E c ctx w =
     (let headers = [];
          headers = header_Set WarehouseRoute ''warehouse'' headers;
          headers =
            (case ctx_string ctx ContextUserAgentID of
               Some userAgent \<Rightarrow>
                 header_Set UserAgent (version E @ ''/databend-go/'' @ userAgent) headers
             | None \<Rightarrow> header_Set UserAgent (''databend-go/'' @ version E) headers);
          headers = header_Set UserAgent (''databend-go/'' @ version E) headers;
          headers =
            (if tenant c \<noteq> [] then header_Set DatabendTenantHeader (tenant c) headers
             else headers);
          headers =
            (if warehouse c \<noteq> [] then header_Set DatabendWarehouseHeader (warehouse c) headers
             else headers);
          headers =
            (case ctx_string ctx ContextKeyQueryID of
               Some queryID \<Rightarrow> header_Set DatabendQueryIDHeader queryID headers
             | None \<Rightarrow> header_Set DatabendQueryIDHeader (GetQueryID c) headers)
      in if authMethod c = AuthMethodUserPassword then
           (Inr (header_Set Authorization (''Basic '' @ encode (user c) (password c)) headers), w)
         else if authMethod c = AuthMethodAccessToken then
           (case LoadAccessToken c False w of
              (Inl err, w') \<Rightarrow> (Inl (Wrap err ''failed to load access token''), w')
            | (Inr accessToken, w') \<Rightarrow>
                (Inr (header_Set Authorization (''Bearer '' @ accessToken) headers), w'))
         else (Inl (ErrorsNew ''no user password or access token''), w))"

subsection \<open>The request executor\<close>

definition NewAPIError :: "string \<Rightarrow> int \<Rightarrow> string \<Rightarrow> goerror" where
  "NewAPIError hint status body = APIError hint status body"

definition maxRetries :: nat where
  "maxRetries = 2"

text \<open>
  The request of one attempt: the fresh headers with the two content-type headers set,
  and the host override when the client has one.
\<close>

definition prepare :: "env \<Rightarrow> APIClient \<Rightarrow> http_request \<Rightarrow> http_Header \<Rightarrow> http_request" where
  "prepare E c httpReq headers =
     (let headers = header_Set ContentType (jsonContentType E) headers;
          headers = header_Set Accept (jsonContentType E) headers;
          httpReq = httpReq\<lparr>req_header := headers\<rparr>
      in if length (host c) > 0 then httpReq\<lparr>req_host := host c\<rparr> else httpReq)"

text \<open>
  \<^verbatim>\<open>c.cli.Do(httpReq)\<close> followed by \<^verbatim>\<open>io.ReadAll(httpResp.Body)\<close>: the request is recorded
  and counted, and the transport answers.
\<close>

definition cli_Do :: "env \<Rightarrow> http_request \<Rightarrow> world \<Rightarrow> http_result \<times> world" where
  "cli_Do E httpReq w =
     (transport E (sends w) httpReq, (emit (HTTPDo httpReq) w)\<lparr>sends := sends w + 1\<rparr>)"

text \<open>
  The attempt loop of \<^verbatim>\<open>doRequest\<close>, from attempt \<open>i\<close> on. The result is the error, the
  result holder \<^verbatim>\<open>resp\<close> (decoded into on a 200 with a JSON content type) and the world.
\<close>

function doRequest_loop ::
  "env \<Rightarrow> APIClient \<Rightarrow> go_context \<Rightarrow> http_request \<Rightarrow> QueryResponse option \<Rightarrow> nat \<Rightarrow> world \<Rightarrow>
     goerror option \<times> QueryResponse option \<times> world" where
  "doRequest_loop E c ctx httpReq resp i w =
     (if i \<le> maxRetries then
        (case makeHeaders E c ctx w of
           (Inl err, w1) \<Rightarrow> (Some (Wrap err ''failed to make request headers''), resp, w1)
         | (Inr headers, w1) \<Rightarrow>
             let httpReq = prepare E c httpReq headers
             in (case cli_Do E httpReq w1 of
                   (DoFailed msg, w2) \<Rightarrow> (Some (Wrap ErrDoRequest msg), resp, w2)
                 | (ReadFailed msg, w2) \<Rightarrow> (Some (Wrap ErrReadResponse msg), resp, w2)
                 | (Response status ctype body, w2) \<Rightarrow>
                     if status = 401 then
                       if authMethod c = AuthMethodAccessToken \<and> i < maxRetries then
                         doRequest_loop E c ctx httpReq resp (i + 1)
                           (snd (LoadAccessToken c True w2))
                       else (Some (NewAPIError ''authorization failed'' status body), resp, w2)
                     else if status \<ge> 500 then
                       (Some (NewAPIError ''please retry again later'' status body), resp, w2)
                     else if status \<ge> 400 then
                       (Some (NewAPIError ''please check your arguments'' status body), resp, w2)
                     else if status \<noteq> 200 then
                       (Some (NewAPIError ''unexpected HTTP StatusCode'' status body), resp, w2)
                     else
                       (case resp of
                          None \<Rightarrow> (None, resp, w2)
                        | Some r \<Rightarrow>
                            if strings_HasPrefix ctype ''application/json'' then
                              (case unmarshalResponse E body r of
                                 (Some err, r') \<Rightarrow>
                                   (Some (Wrap err ''failed to unmarshal response body''),
                                    Some r', w2)
                               | (None, r') \<Rightarrow> (None, Some r', w2))
                            else (None, resp, w2))))
      else (Some (ErrorsNew ''failed to do request after 2 retries''), resp, w))"
  by pat_completeness auto
termination
  by (relation "measure (\<lambda>(E, c, ctx, httpReq, resp, i, w). Suc maxRetries - i)") auto

declare doRequest_loop.simps [simp del]

definition doRequest ::
  "env \<Rightarrow> APIClient \<Rightarrow> go_context \<Rightarrow> string \<Rightarrow> string \<Rightarrow> QueryRequest option \<Rightarrow>
     QueryResponse option \<Rightarrow> world \<Rightarrow> goerror option \<times> QueryResponse option \<times> world" where
  "doRequest E c ctx method path req resp w =
     (case doRequestFunc c of
        Some mock \<Rightarrow> (case mock method path req resp of (err, resp') \<Rightarrow> (err, resp', w))
      | None \<Rightarrow>
          (case (case req of None \<Rightarrow> None | Some r \<Rightarrow> marshalRequest E r) of
             Some err \<Rightarrow> (Some (Wrap err ''failed to marshal request body''), resp, w)
           | None \<Rightarrow>
               let url = makeURL E c path
               in (case newRequest E method url of
                     Some err \<Rightarrow> (Some (Wrap err ''failed to create http request''), resp, w)
                   | None \<Rightarrow>
                       doRequest_loop E c ctx
                         \<lparr>req_method = method, req_url = url, req_host = [], req_header = [],
                          req_body = req, req_ctx = ctx\<rparr>
                         resp 1 w)))"

subsection \<open>Session state\<close>

definition getPagenationConfig :: "APIClient \<Rightarrow> PaginationConfig option" where
  "getPagenationConfig c =
     (if MaxRowsPerPage c = 0 \<and> MaxRowsInBuffer c = 0 \<and> WaitTimeSeconds c = 0 then None
      else Some \<lparr>pc_MaxRowsPerPage = MaxRowsPerPage c, pc_MaxRowsInBuffer = MaxRowsInBuffer c,
                 pc_WaitTime = WaitTimeSeconds c\<rparr>)"

definition getSessionStateRaw :: "APIClient \<Rightarrow> string option" where
  "getSessionStateRaw c = sessionStateRaw c"

definition getSessionState :: "APIClient \<Rightarrow> SessionState option" where
  "getSessionState c = sessionState c"

text \<open>
  \<^verbatim>\<open>applySessionState\<close>: the raw payload replaces the stored one, and is decoded into the
  structured state in place (the decoder's error is dropped).
\<close>

definition applySessionState :: "env \<Rightarrow> APIClient \<Rightarrow> QueryResponse option \<Rightarrow> APIClient" where
  "applySessionState E c response =
     (case response of
        None \<Rightarrow> c
      | Some r \<Rightarrow>
          (case Session r of
             None \<Rightarrow> c
           | Some raw \<Rightarrow>
               c\<lparr>sessionStateRaw := Some raw,
                 sessionState := map_option (unmarshalSession E raw) (sessionState c)\<rparr>))"

subsection \<open>The query lifecycle\<close>

text \<open>
  Modelled from the spec: \<^verbatim>\<open>ReadFinished\<close> is declared in another file; the
  specification says a response is finished when no continuation URI is present.
\<close>

definition ReadFinished :: "QueryResponse \<Rightarrow> bool" where
  "ReadFinished resp = (NextURI resp = [])"

text \<open>The zero value of a response, as \<^verbatim>\<open>var resp QueryResponse\<close> declares it.\<close>

definition zeroQueryResponse :: QueryResponse where
  "zeroQueryResponse =
     \<lparr>ID = [], Data = [], NextURI = [], FinalURI = [], KillURI = [], Error = None,
      Session = None, Stats = None\<rparr>"

text \<open>
  The closures handed to \<^verbatim>\<open>DoRetry\<close>: a request that decodes into the captured result
  holder, and one with no result holder. The holder is the caller's variable, so a call
  can change what it holds but cannot remove it.
\<close>

definition requestInto ::
  "env \<Rightarrow> APIClient \<Rightarrow> go_context \<Rightarrow> string \<Rightarrow> string \<Rightarrow> QueryRequest option \<Rightarrow>
     QueryResponse RetryableFunc" where
  "requestInto E c ctx method path req s =
     (case doRequest E c ctx method path req (Some (fst s)) (snd s) of
        (err, resp', w') \<Rightarrow> (err, (case resp' of Some r \<Rightarrow> r | None \<Rightarrow> fst s), w'))"

definition requestOnly ::
  "env \<Rightarrow> APIClient \<Rightarrow> go_context \<Rightarrow> string \<Rightarrow> string \<Rightarrow> unit RetryableFunc" where
  "requestOnly E c ctx method path s =
     (case doRequest E c ctx method path None None (snd s) of
        (err, resp', w') \<Rightarrow> (err, (), w'))"

definition PollQuery ::
  "env \<Rightarrow> APIClient \<Rightarrow> go_context \<Rightarrow> string \<Rightarrow> world \<Rightarrow>
     (goerror + QueryResponse) \<times> APIClient \<times> world" where
  "PollQuery E c ctx nextURI w =
     (case DoRetry E (requestInto E c ctx ''GET'' nextURI None) Page (zeroQueryResponse, w) of
        (err, result, w1) \<Rightarrow>
          let c1 = applySessionState E c (Some result);
              w2 = trackStats c1 (Some result) w1
          in (case err of
                Some e \<Rightarrow> (Inl (Wrap e ''failed to query page''), c1, w2)
              | None \<Rightarrow> (Inr result, c1, w2)))"

text \<open>
  \<^verbatim>\<open>PollUntilQueryEnd\<close>. The loop may run for ever, so it takes fuel: one unit for each
  iteration, and the answer \<open>None\<close> when the fuel runs out before the loop ends. In the
  body, \<^verbatim>\<open>resp, err := c.PollQuery(ctx, resp.NextURI)\<close> is a short variable declaration
  inside the block of the loop: it declares a new \<^verbatim>\<open>resp\<close> (\<open>page\<close> below) whose scope
  is the rest of that block, and the right-hand side, the loop condition and the final
  \<^verbatim>\<open>return resp, nil\<close> read the parameter \<^verbatim>\<open>resp\<close>, which no statement assigns.
\<close>

fun PollUntilQueryEnd ::
  "nat \<Rightarrow> env \<Rightarrow> APIClient \<Rightarrow> go_context \<Rightarrow> QueryResponse \<Rightarrow> world \<Rightarrow>
     (goerror + QueryResponse) option \<times> APIClient \<times> world" where
  "PollUntilQueryEnd fuel E c ctx resp w =
     (if ReadFinished resp then (Some (Inr resp), c, w)
      else
        (case fuel of
           0 \<Rightarrow> (None, c, w)
         | Suc fuel' \<Rightarrow>
             let data = Data resp
             in (case PollQuery E c ctx (NextURI resp) w of
                   (Inl err, c1, w1) \<Rightarrow> (Some (Inl err), c1, w1)
                 | (Inr page, c1, w1) \<Rightarrow>
                     (case Error page of
                        Some qe \<Rightarrow>
                          (Some (Inl (Wrap (InBand qe) ''query page has error'')), c1, w1)
                      | None \<Rightarrow>
                          let page = page\<lparr>Data := data @ Data page\<rparr>
                          in PollUntilQueryEnd fuel' E c1 ctx resp w1))))"

declare PollUntilQueryEnd.simps [simp del]

definition buildQuery :: "env \<Rightarrow> string \<Rightarrow> string option list \<Rightarrow> goerror + string" where
  "buildQuery E query params =
     (case params of
        [] \<Rightarrow> Inr query
      | p # ps \<Rightarrow>
          if p \<noteq> None then
            (case interpolateParams E query params of
               (Some err, result) \<Rightarrow>
                 Inl (Wrap err ''buildRequest: failed to interpolate params'')
             | (None, result) \<Rightarrow> Inr result)
          else Inr query)"

definition startQueryRequest ::
  "env \<Rightarrow> APIClient \<Rightarrow> go_context \<Rightarrow> QueryRequest \<Rightarrow> world \<Rightarrow>
     (goerror + QueryResponse) \<times> APIClient \<times> world" where
  "startQueryRequest E c ctx request w =
     (let c0 = NextQuery c;
          path = ''/v1/query''
      in (case DoRetry E (requestInto E c0 ctx ''POST'' path (Some request)) Query
                 (zeroQueryResponse, w) of
            (Some err, resp, w1) \<Rightarrow> (Inl (Wrap err ''failed to do query request''), c0, w1)
          | (None, resp, w1) \<Rightarrow>
              let c1 = applySessionState E c0 (Some resp);
                  w2 = trackStats c1 (Some resp) w1
              in (Inr resp, c1, w2)))"

definition StartQuery ::
  "env \<Rightarrow> APIClient \<Rightarrow> go_context \<Rightarrow> string \<Rightarrow> string option list \<Rightarrow> world \<Rightarrow>
     (goerror + QueryResponse) \<times> APIClient \<times> world" where
  "StartQuery E c ctx query args w =
     (case buildQuery E query args of
        Inl err \<Rightarrow> (Inl err, c, w)
      | Inr q \<Rightarrow>
          startQueryRequest E c ctx
            \<lparr>SQL = q, Pagination = getPagenationConfig c, rq_Session = getSessionStateRaw c,
             StageAttachment = None\<rparr> w)"

text \<open>
  \<^verbatim>\<open>KillQuery\<close> and \<^verbatim>\<open>CloseQuery\<close>: the returned error is the first component.
\<close>

definition KillQuery ::
  "env \<Rightarrow> APIClient \<Rightarrow> go_context \<Rightarrow> QueryResponse option \<Rightarrow> world \<Rightarrow> goerror option \<times> world" where
  "KillQuery E c ctx response w =
     (case response of
        None \<Rightarrow> (None, w)
      | Some r \<Rightarrow>
          if KillURI r \<noteq> [] then
            let ctx' = context_WithTimeout ctx 30
            in (case DoRetry E (requestOnly E c ctx' ''GET'' (KillURI r)) Kill ((), w) of
                  (err, u, w') \<Rightarrow> (None, w'))
          else (None, w))"

definition CloseQuery ::
  "env \<Rightarrow> APIClient \<Rightarrow> go_context \<Rightarrow> QueryResponse option \<Rightarrow> world \<Rightarrow> goerror option \<times> world" where
  "CloseQuery E c ctx response w =
     (case response of
        None \<Rightarrow> (None, w)
      | Some r \<Rightarrow>
          if FinalURI r \<noteq> [] then
            let ctx' = context_WithTimeout ctx 30
            in (case DoRetry E (requestOnly E c ctx' ''GET'' (FinalURI r)) Final ((), w) of
                  (err, u, w') \<Rightarrow> (None, w'))
          else (None, w))"

text \<open>
  \<^verbatim>\<open>QuerySync\<close>: the deferred \<^verbatim>\<open>CloseQuery(ctx, resp)\<close> runs when the function returns
  after a successful start, with the response of the start.
\<close>

definition QuerySync ::
  "nat \<Rightarrow> env \<Rightarrow> APIClient \<Rightarrow> go_context \<Rightarrow> string \<Rightarrow> string option list \<Rightarrow> world \<Rightarrow>
     (goerror + QueryResponse) option \<times> APIClient \<times> world" where
  "QuerySync fuel E c ctx query args w =
     (case StartQuery E c ctx query args w of
        (Inl err, c1, w1) \<Rightarrow> (Some (Inl err), c1, w1)
      | (Inr resp, c1, w1) \<Rightarrow>
          (case Error resp of
             Some qe \<Rightarrow>
               (Some (Inl (ErrorsNew (''query error: '' @ qe))), c1,
                snd (CloseQuery E c1 ctx (Some resp) w1))
           | None \<Rightarrow>
               (case PollUntilQueryEnd fuel E c1 ctx resp w1 of
                  (None, c2, w2) \<Rightarrow> (None, c2, w2)
                | (Some r, c2, w2) \<Rightarrow> (Some r, c2, snd (CloseQuery E c2 ctx (Some resp) w2)))))"

subsection \<open>Stage uploads\<close>

definition StageLocation_String :: "StageLocation \<Rightarrow> string" where
  "StageLocation_String sl = ''@'' @ Name sl @ ''/'' @ Path sl"

definition EMPTY_FIELD_AS :: string where
  "EMPTY_FIELD_AS = ''empty_field_as''"

definition PURGE :: string where
  "PURGE = ''purge''"

definition NewDefaultCSVFormatOptions :: "APIClient \<Rightarrow> (string \<rightharpoonup> string)" where
  "NewDefaultCSVFormatOptions c =
     [''type'' \<mapsto> ''CSV'',
      ''field_delimiter'' \<mapsto> '','',
      ''record_delimiter'' \<mapsto> [CHR 0x0A],
      ''skip_header'' \<mapsto> ''0'',
      EMPTY_FIELD_AS \<mapsto> EmptyFieldAs c]"

definition NewDefaultCopyOptions :: "APIClient \<Rightarrow> (string \<rightharpoonup> string)" where
  "NewDefaultCopyOptions c = [PURGE \<mapsto> ''true'']"

text \<open>The request \<^verbatim>\<open>InsertWithStage\<close> builds for a stage; a nil map is \<open>None\<close>.\<close>

definition stageRequest ::
  "APIClient \<Rightarrow> string \<Rightarrow> StageLocation \<Rightarrow> (string \<rightharpoonup> string) option \<Rightarrow>
     (string \<rightharpoonup> string) option \<Rightarrow> QueryRequest" where
  "stageRequest c sql stage fileFormatOptions copyOptions =
     (let fileFormatOptions =
            (case fileFormatOptions of
               None \<Rightarrow> NewDefaultCSVFormatOptions c
             | Some m \<Rightarrow> m);
          copyOptions =
            (case copyOptions of
               None \<Rightarrow> NewDefaultCopyOptions c
             | Some m \<Rightarrow> m)
      in \<lparr>SQL = sql, Pagination = getPagenationConfig c, rq_Session = getSessionStateRaw c,
          StageAttachment =
            Some \<lparr>Location = StageLocation_String stage,
                  FileFormatOptions = fileFormatOptions,
                  CopyOptions = copyOptions\<rparr>\<rparr>)"

definition InsertWithStage ::
  "nat \<Rightarrow> env \<Rightarrow> APIClient \<Rightarrow> go_context \<Rightarrow> string \<Rightarrow> StageLocation option \<Rightarrow>
     (string \<rightharpoonup> string) option \<Rightarrow> (string \<rightharpoonup> string) option \<Rightarrow> world \<Rightarrow>
     (goerror + QueryResponse) option \<times> APIClient \<times> world" where
  "InsertWithStage fuel E c ctx sql stage fileFormatOptions copyOptions w =
     (case stage of
        None \<Rightarrow>
          (Some (Inl (ErrorsNew ''stage location required for insert with stage'')), c, w)
      | Some st \<Rightarrow>
          (case startQueryRequest E c ctx (stageRequest c sql st fileFormatOptions copyOptions) w of
             (Inl err, c1, w1) \<Rightarrow> (Some (Inl err), c1, w1)
           | (Inr resp, c1, w1) \<Rightarrow>
               (case Error resp of
                  Some qe \<Rightarrow>
                    (Some (Inl (Wrap (InBand qe) ''query error:'')), c1,
                     snd (CloseQuery E c1 ctx (Some resp) w1))
                | None \<Rightarrow>
                    (case PollUntilQueryEnd fuel E c1 ctx resp w1 of
                       (None, c2, w2) \<Rightarrow> (None, c2, w2)
                     | (Some r, c2, w2) \<Rightarrow>
                         (Some r, c2, snd (CloseQuery E c2 ctx (Some resp) w2))))))"

text \<open>
  Indexing a row: Go panics when the index is not below the length. \<open>fmt_rows\<close> is
  \<^verbatim>\<open>%+v\<close> of the rows.
\<close>

definition index :: "string list \<Rightarrow> nat \<Rightarrow> goerror + string" where
  "index row i =
     (if i < length row then Inr (row ! i) else Inl (Panic ''index out of range''))"

fun join_sp :: "string list \<Rightarrow> string" where
  "join_sp [] = []"
| "join_sp [x] = x"
| "join_sp (x # y # ys) = x @ '' '' @ join_sp (y # ys)"

definition fmt_rows :: "string list list \<Rightarrow> string" where
  "fmt_rows d = ''['' @ join_sp (map (\<lambda>row. ''['' @ join_sp row @ '']'') d) @ '']''"

text \<open>
  \<^verbatim>\<open>GetPresignedURL\<close>: the fields of the result are read in the order of the struct
  literal (\<^verbatim>\<open>Data[0][0]\<close>, then \<^verbatim>\<open>Data[0][2]\<close>), then \<^verbatim>\<open>Data[0][1]\<close> for the headers.
\<close>

definition GetPresignedURL ::
  "nat \<Rightarrow> env \<Rightarrow> APIClient \<Rightarrow> go_context \<Rightarrow> StageLocation \<Rightarrow> world \<Rightarrow>
     (goerror + PresignedResponse) option \<times> APIClient \<times> world" where
  "GetPresignedURL fuel E c ctx stage w =
     (let presignUploadSQL = ''PRESIGN UPLOAD '' @ StageLocation_String stage
      in (case QuerySync fuel E c ctx presignUploadSQL [] w of
            (None, c1, w1) \<Rightarrow> (None, c1, w1)
          | (Some (Inl err), c1, w1) \<Rightarrow>
              (Some (Inl (Wrap err ''failed to query presign url'')), c1, w1)
          | (Some (Inr resp), c1, w1) \<Rightarrow>
              if length (Data resp) < 1 \<or> length (Data resp ! 0) < 2 then
                (Some (Inl (ErrorsNew (''generate presign url invalid response: ''
                                        @ fmt_rows (Data resp)))), c1, w1)
              else
                (case index (Data resp ! 0) 0 of
                   Inl p \<Rightarrow> (Some (Inl p), c1, w1)
                 | Inr method \<Rightarrow>
                     (case index (Data resp ! 0) 2 of
                        Inl p \<Rightarrow> (Some (Inl p), c1, w1)
                      | Inr url \<Rightarrow>
                          (case index (Data resp ! 0) 1 of
                             Inl p \<Rightarrow> (Some (Inl p), c1, w1)
                           | Inr headers \<Rightarrow>
                               (case unmarshalHeaders E headers of
                                  Inl err \<Rightarrow>
                                    (Some (Inl (Wrap err ''failed to unmarshal headers'')), c1, w1)
                                | Inr hs \<Rightarrow>
                                    (Some (Inr \<lparr>Method = method, Headers = hs, URL = url\<rparr>),
                                     c1, w1)))))))"

subsection \<open>Reference runs and sample inputs\<close>

text \<open>
  The retry schedule in the specification's words: \<open>k\<close> attempts of \<open>f\<close>, one after the
  other, separated by a sleep of \<open>delay\<close> seconds (and no sleep after the last).
\<close>

fun attempts_spaced :: "'v RetryableFunc \<Rightarrow> nat \<Rightarrow> nat \<Rightarrow> 'v \<times> world \<Rightarrow> 'v \<times> world" where
  "attempts_spaced f delay 0 s = s"
| "attempts_spaced f delay (Suc 0) s = snd (f s)"
| "attempts_spaced f delay (Suc (Suc k)) s =
     attempts_spaced f delay (Suc k) (apsnd (time_Sleep delay) (snd (f s)))"

text \<open>
  The retry classification in the specification's words: a transport-send failure, a
  response-read failure, or, for the Query class only, a message that says the
  warehouse is still provisioning.
\<close>

definition spec_retryable :: "env \<Rightarrow> RequestType \<Rightarrow> goerror \<Rightarrow> bool" where
  "spec_retryable E t e =
     (errors_Is e ErrDoRequest \<or> errors_Is e ErrReadResponse
      \<or> (t = Query \<and> strings_Contains (Error_text E e) (ProvisionWarehouseTimeout E)))"

text \<open>
  A sample environment for evaluating the model on concrete inputs: a proxy error is an
  API error of status 520, the response decoder stores the body as the continuation URI,
  and every request is refused by the transport.
\<close>

definition sample_env :: env where
  "sample_env =
     \<lparr>version = ''v0.7.0'',
      jsonContentType = ''application/json'',
      ProvisionWarehouseTimeout = ''ProvisionWarehouseTimeout'',
      IsProxyErr = (\<lambda>e. case e of APIError hint status body \<Rightarrow> status = 520 | _ \<Rightarrow> False),
      errorText =
        (\<lambda>e. case e of APIError hint status body \<Rightarrow> hint @ '': '' @ body | _ \<Rightarrow> ''error''),
      marshalRequest = (\<lambda>r. None),
      newRequest = (\<lambda>m u. None),
      unmarshalResponse = (\<lambda>body r. (None, r\<lparr>NextURI := body\<rparr>)),
      unmarshalSession = (\<lambda>raw s. s\<lparr>Database := raw\<rparr>),
      unmarshalHeaders = (\<lambda>s. Inr []),
      interpolateParams = (\<lambda>q ps. (None, q)),
      fmt_Sprintf = (\<lambda>format. format),
      transport = (\<lambda>k r. DoFailed ''connection refused'')\<rparr>"

definition world0 :: world where
  "world0 = \<lparr>trace = [], sends = 0, loads = 0\<rparr>"

text \<open>An attempt the server always rejects.\<close>

definition rejected :: "unit RetryableFunc" where
  "rejected s =
     (Some (APIError ''please check your arguments'' 400 ''bad request''),
      (), (snd s)\<lparr>sends := sends (snd s) + 1\<rparr>)"

definition sample_client :: APIClient where
  "sample_client =
     \<lparr>SessionID = ''5e1f'', QuerySeq = 0, rows = None,
      apiEndpoint = ''https://db.example'', host = [], tenant = [], warehouse = [],
      database = ''default'', user = ''root'', password = ''pw'',
      sessionStateRaw = None,
      sessionState =
        Some \<lparr>Database = ''default'', Role = [], SecondaryRoles = None, Settings = []\<rparr>,
      statsTracker = False, accessTokenLoader = None,
      WaitTimeSeconds = 0, MaxRowsInBuffer = 0, MaxRowsPerPage = 0,
      PresignedURLDisabled = False, EmptyFieldAs = [], doRequestFunc = None\<rparr>"

definition ctx0 :: go_context where
  "ctx0 = \<lparr>ctx_values = [], ctx_timeout = None\<rparr>"

definition select1 :: QueryRequest where
  "select1 = \<lparr>SQL = ''select 1'', Pagination = None, rq_Session = None, StageAttachment = None\<rparr>"

text \<open>A call context that carries an external agent tag.\<close>

definition tagged_ctx :: go_context where
  "tagged_ctx =
     \<lparr>ctx_values = [(ContextUserAgentID, StringVal ''my-app/1.0'')], ctx_timeout = None\<rparr>"

text \<open>A client with a cursor still open, and one whose counter is the largest int64.\<close>

definition open_cursor_client :: APIClient where
  "open_cursor_client = sample_client\<lparr>rows := Some \<lparr>isClosed = False\<rparr>\<rparr>"

definition max_client :: APIClient where
  "max_client = sample_client\<lparr>QuerySeq := 0x7FFFFFFFFFFFFFFF\<rparr>"

text \<open>
  A server that answers every request with a failed COMMIT: a 200 whose body decodes
  to an in-band error together with a session payload.
\<close>

definition failed_commit_env :: env where
  "failed_commit_env =
     sample_env
       \<lparr>unmarshalResponse :=
          (\<lambda>body r. (None, r\<lparr>QueryResponse.Error := Some ''commit failed'',
                               Session := Some body\<rparr>)),
        transport :=
          (\<lambda>k r. Response 200 ''application/json; charset=utf-8'' ''{txn_state: Fail}'')\<rparr>"

definition failed_commit_resp :: QueryResponse where
  "failed_commit_resp =
     \<lparr>ID = [], Data = [], NextURI = [], FinalURI = [], KillURI = [],
      Error = Some ''commit failed'', Session = Some ''{txn_state: Fail}'', Stats = None\<rparr>"

text \<open>
  A server whose answer to every request decodes to one result row of two columns, and
  a stage.
\<close>

definition presign_env :: env where
  "presign_env =
     sample_env
       \<lparr>unmarshalResponse := (\<lambda>body r. (None, r\<lparr>Data := [[''PUT'', ''{}'']]\<rparr>)),
        transport := (\<lambda>k r. Response 200 ''application/json'' ''ok'')\<rparr>"

definition stage0 :: StageLocation where
  "stage0 = \<lparr>Name = ''~'', Path = ''upload/data.csv''\<rparr>"

definition presign_resp :: QueryResponse where
  "presign_resp = zeroQueryResponse\<lparr>Data := [[''PUT'', ''{}'']]\<rparr>"

text \<open>
  A server whose answer to every request decodes to a finished page (no continuation
  URI, no error), the unfinished response a query started with, and the request that
  fetches its continuation.
\<close>

definition last_page_env :: env where
  "last_page_env = sample_env\<lparr>transport := (\<lambda>k r. Response 200 ''application/json'' [])\<rparr>"

definition first_page :: QueryResponse where
  "first_page =
     \<lparr>ID = ''q'', Data = [[''1'']], NextURI = ''/v1/query/q/page/1'', FinalURI = [], KillURI = [],
      Error = None, Session = None, Stats = None\<rparr>"

definition page_request :: http_request where
  "page_request =
     \<lparr>req_method = ''GET'', req_url = ''https://db.example/v1/query/q/page/1'', req_host = [],
      req_header =
        [(WarehouseRoute, ''warehouse''), (UserAgent, ''databend-go/v0.7.0''),
         (DatabendQueryIDHeader, ''5e1f.0''), (Authorization, ''Basic cm9vdDpwdw==''),
         (ContentType, ''application/json''), (Accept, ''application/json'')],
      req_body = None, req_ctx = ctx0\<rparr>"

text \<open>The number of forced token reloads a world has seen.\<close>

definition forced_reloads :: "world \<Rightarrow> nat" where
  "forced_reloads w = length (filter (\<lambda>ev. ev = TokenLoad True) (trace w))"

text \<open>
  A client that authenticates with a token whose first load gives a stale token, and a
  server that answers a request carrying the stale token with 401 and any other with
  200; and a server that answers every request with 401.
\<close>

definition token_client :: APIClient where
  "token_client =
     sample_client
       \<lparr>user := [], password := [],
        accessTokenLoader := Some (\<lambda>k force. Inr (if k = 0 then ''stale'' else ''fresh''))\<rparr>"

definition expired_env :: env where
  "expired_env =
     sample_env
       \<lparr>transport :=
          (\<lambda>k r. if header_Get (req_header r) Authorization = Some ''Bearer stale''
                 then Response 401 ''text/plain'' ''token expired''
                 else Response 200 ''application/json'' [])\<rparr>"

definition locked_env :: env where
  "locked_env = sample_env\<lparr>transport := (\<lambda>k r. Response 401 ''text/plain'' ''bad credentials'')\<rparr>"

definition get_page :: http_request where
  "get_page =
     \<lparr>req_method = ''GET'', req_url = ''https://db.example/v1/query/q/page/1'', req_host = [],
      req_header = [], req_body = None, req_ctx = ctx0\<rparr>"

text \<open>
  The request of the sample page fetch as it is sent with a given Authorization header,
  and the world after a stale token was rotated.
\<close>

definition sent_with :: "string \<Rightarrow> http_request" where
  "sent_with auth =
     get_page
       \<lparr>req_header :=
          [(WarehouseRoute, ''warehouse''), (UserAgent, ''databend-go/v0.7.0''),
           (DatabendQueryIDHeader, ''5e1f.0''), (Authorization, auth),
           (ContentType, ''application/json''), (Accept, ''application/json'')]\<rparr>"

definition rotated_world :: world where
  "rotated_world =
     \<lparr>trace = [TokenLoad False, HTTPDo (sent_with ''Bearer stale''), TokenLoad True,
               TokenLoad False, HTTPDo (sent_with ''Bearer fresh'')],
      sends = 2, loads = 3\<rparr>"

subsection \<open>What a call sends\<close>

text \<open>
  \<open>call_of m u b cx\<close> holds of a request with method \<open>m\<close>, URL \<open>u\<close>, body \<open>b\<close> and
  context \<open>cx\<close>, whatever its headers and host. \<open>sends_only Q w w'\<close> says that the world
  \<open>w'\<close> is \<open>w\<close> with more events at the end of its trace, and that every request sent
  among them satisfies \<open>Q\<close>.
\<close>

definition call_of :: "string \<Rightarrow> string \<Rightarrow> QueryRequest option \<Rightarrow> go_context \<Rightarrow> http_request \<Rightarrow> bool" where
  "call_of m u b cx r = (req_method r = m \<and> req_url r = u \<and> req_body r = b \<and> req_ctx r = cx)"

definition sends_only :: "(http_request \<Rightarrow> bool) \<Rightarrow> world \<Rightarrow> world \<Rightarrow> bool" where
  "sends_only Q w w' = (\<exists>evs. trace w' = trace w @ evs \<and> (\<forall>r. HTTPDo r \<in> set evs \<longrightarrow> Q r))"

text \<open>A response that carries a finalize and a kill URI, and the finalize request.\<close>

definition final_resp :: QueryResponse where
  "final_resp =
     zeroQueryResponse\<lparr>FinalURI := ''/v1/query/q/final'', KillURI := ''/v1/query/q/kill''\<rparr>"

definition final_request :: http_request where
  "final_request =
     \<lparr>req_method = ''GET'', req_url = ''https://db.example/v1/query/q/final'', req_host = [],
      req_header =
        [(WarehouseRoute, ''warehouse''), (UserAgent, ''databend-go/v0.7.0''),
         (DatabendQueryIDHeader, ''5e1f.0''), (Authorization, ''Basic cm9vdDpwdw==''),
         (ContentType, ''application/json''), (Accept, ''application/json'')],
      req_body = None, req_ctx = \<lparr>ctx_values = [], ctx_timeout = Some 30\<rparr>\<rparr>"

text \<open>The submission request as the sample client sends it with no body.\<close>

definition post_request :: http_request where
  "post_request =
     \<lparr>req_method = ''POST'', req_url = ''https://db.example/v1/query'', req_host = [],
      req_header =
        [(WarehouseRoute, ''warehouse''), (UserAgent, ''databend-go/v0.7.0''),
         (DatabendQueryIDHeader, ''5e1f.0''), (Authorization, ''Basic cm9vdDpwdw==''),
         (ContentType, ''application/json''), (Accept, ''application/json'')],
      req_body = None, req_ctx = ctx0\<rparr>"

text \<open>
  \<open>extends w w'\<close>: the trace of \<open>w'\<close> is the trace of \<open>w\<close> with more events at its end.
  \<open>insert_request\<close> is the submission of the sample insert as the sample client sends it.
\<close>

definition extends :: "world \<Rightarrow> world \<Rightarrow> bool" where
  "extends w w' = (\<exists>evs. trace w' = trace w @ evs)"

definition insert_request :: http_request where
  "insert_request =
     \<lparr>req_method = ''POST'', req_url = ''https://db.example/v1/query'', req_host = [],
      req_header =
        [(WarehouseRoute, ''warehouse''), (UserAgent, ''databend-go/v0.7.0''),
         (DatabendQueryIDHeader, ''5e1f.1''), (Authorization, ''Basic cm9vdDpwdw==''),
         (ContentType, ''application/json''), (Accept, ''application/json'')],
      req_body = Some (stageRequest sample_client ''INSERT INTO t VALUES'' stage0 None None),
      req_ctx = ctx0\<rparr>"

section \<open>Properties\<close>

lemmas model_defs =
  DoRetry_def retry_Do_def RetryIf_def requestInto_def requestOnly_def doRequest_def
  doRequest_loop.simps
  makeHeaders_def makeURL_def authMethod_def AuthMethodUserPassword_def AuthMethodAccessToken_def
  LoadAccessToken_def prepare_def cli_Do_def header_Set_def header_Get_def ctx_string_def emit_def time_Sleep_def
  NewAPIError_def maxRetries_def GetQueryID_def encode_def base64_EncodeToString_def
  b64_digit_def fmt_d_def
  applySessionState_def trackStats_def zeroQueryResponse_def PollQuery_def startQueryRequest_def
  StartQuery_def NextQuery_def buildQuery_def getPagenationConfig_def getSessionStateRaw_def
  CloseQuery_def KillQuery_def context_WithTimeout_def QuerySync_def ReadFinished_def

lemmas sample_defs = sample_env_def sample_client_def ctx0_def world0_def

subsection \<open>The retry policy\<close>

lemma errors_Is_unique: "errors_Is e a \<Longrightarrow> errors_Is e b \<Longrightarrow> a = b"
  by (induction e a rule: errors_Is.induct) auto

lemma RetryIf_send_failure: "errors_Is e ErrDoRequest \<Longrightarrow> RetryIf E t (Some e)"
  using errors_Is_unique [of e ErrDoRequest ContextCanceled] by (auto simp: RetryIf_def)

text \<open>
  When every attempt fails with an error the predicate accepts, the loop started at
  counter \<open>n\<close> makes the remaining \<open>attempts - n\<close> attempts, sleeping between them, and
  returns the log extended by one error for each.
\<close>

lemma retry_Do_loop_all_retried:
  "\<forall>s. \<exists>e. fst (f s) = Some e \<and> retryIf (Some e) \<Longrightarrow> n < attempts \<Longrightarrow>
     snd (retry_Do_loop f retryIf delay attempts n errorLog w)
       = attempts_spaced f delay (attempts - n) w
   \<and> (\<exists>es. fst (retry_Do_loop f retryIf delay attempts n errorLog w)
              = Some (RetryError (errorLog @ es))
        \<and> length es = attempts - n \<and> (\<forall>e\<in>set es. retryIf (Some e)))"
proof (induction f retryIf delay attempts n errorLog w rule: retry_Do_loop.induct)
  case (1 f retryIf delay attempts n errorLog w)
  note fail = "1.prems"(1) and nlt = "1.prems"(2)
  obtain e where fe: "fst (f w) = Some e" and re: "retryIf (Some e)"
    using fail by blast
  define w1 where "w1 = snd (f w)"
  have fw: "f w = (Some e, w1)"
    using fe by (simp add: w1_def prod_eq_iff)
  show ?case
  proof (cases "n = attempts - 1")
    case True
    then have "attempts - n = Suc 0" using nlt by arith
    then show ?thesis using fw re True nlt
      by (subst retry_Do_loop.simps, subst retry_Do_loop.simps) simp
  next
    case False
    then have lt: "n + 1 < attempts" using nlt by arith
    define k where "k = attempts - n - 2"
    have k: "attempts - n = Suc (Suc k)" "attempts - (n + 1) = Suc k"
      using lt by (simp_all add: k_def)
    have ih: "snd (retry_Do_loop f retryIf delay attempts (n + 1) (errorLog @ [e])
                    (apsnd (time_Sleep delay) w1))
                = attempts_spaced f delay (attempts - (n + 1)) (apsnd (time_Sleep delay) w1)
       \<and> (\<exists>es. fst (retry_Do_loop f retryIf delay attempts (n + 1) (errorLog @ [e])
                      (apsnd (time_Sleep delay) w1))
              = Some (RetryError ((errorLog @ [e]) @ es))
            \<and> length es = attempts - (n + 1) \<and> (\<forall>e\<in>set es. retryIf (Some e)))"
      using "1.IH" [OF nlt fw [symmetric] refl _ False fail lt] re by simp
    then obtain es where es:
      "fst (retry_Do_loop f retryIf delay attempts (n + 1) (errorLog @ [e]) (apsnd (time_Sleep delay) w1))
         = Some (RetryError ((errorLog @ [e]) @ es))"
      "length es = attempts - (n + 1)" "\<forall>e\<in>set es. retryIf (Some e)"
      by blast
    have step: "retry_Do_loop f retryIf delay attempts n errorLog w
        = retry_Do_loop f retryIf delay attempts (n + 1) (errorLog @ [e]) (apsnd (time_Sleep delay) w1)"
      using fw re False nlt by (subst retry_Do_loop.simps) simp
    show ?thesis
      unfolding step using ih es k fw re
      by (intro conjI exI [of _ "e # es"]) auto
  qed
qed

text \<open>
  C2 (as amended). An attempt's error is retried exactly when it does not match context
  cancellation and is a transport-send failure, a response-read failure, a proxy error
  (\<^verbatim>\<open>IsProxyErr\<close>), or, for the Query class only, has a message that contains the
  warehouse-provisioning marker. An error that is not retried is surfaced at once, with
  no sleep and no further attempt; one that is retried is followed by a sleep of the
  class's delay and the rest of the loop.
\<close>

theorem DoRetry_retries_iff:
  assumes "f w = (Some e, w1)"
  shows "(RetryIf E t (Some e) \<longleftrightarrow>
            \<not> errors_Is e ContextCanceled
          \<and> (errors_Is e ErrDoRequest \<or> errors_Is e ErrReadResponse \<or> IsProxyErr E e
             \<or> (t = Query \<and> strings_Contains (Error_text E e) (ProvisionWarehouseTimeout E))))
       \<and> (\<not> RetryIf E t (Some e) \<longrightarrow> DoRetry E f t w = (Some (RetryError [e]), w1))
       \<and> (RetryIf E t (Some e) \<longrightarrow>
            DoRetry E f t w =
              retry_Do_loop f (RetryIf E t) (if t = Query then 2 else 1)
                (if t = Query then 5 else 3) 1 [e]
                (apsnd (time_Sleep (if t = Query then 2 else 1)) w1))"
proof -
  have "RetryIf E t (Some e) \<longleftrightarrow>
            \<not> errors_Is e ContextCanceled
          \<and> (errors_Is e ErrDoRequest \<or> errors_Is e ErrReadResponse \<or> IsProxyErr E e
             \<or> (t = Query \<and> strings_Contains (Error_text E e) (ProvisionWarehouseTimeout E)))"
    by (simp add: RetryIf_def)
  moreover have "\<not> RetryIf E t (Some e) \<Longrightarrow> DoRetry E f t w = (Some (RetryError [e]), w1)"
    using assms by (simp add: DoRetry_def retry_Do_def Let_def)
  moreover have "RetryIf E t (Some e) \<Longrightarrow>
            DoRetry E f t w =
              retry_Do_loop f (RetryIf E t) (if t = Query then 2 else 1)
                (if t = Query then 5 else 3) 1 [e]
                (apsnd (time_Sleep (if t = Query then 2 else 1)) w1)"
    using assms by (cases "t = Query") (simp_all add: DoRetry_def retry_Do_def)
  ultimately show ?thesis by blast
qed

theorem DoRetry_retries_iff_witness:
  "rejected ((), world0)
     = (Some (APIError ''please check your arguments'' 400 ''bad request''),
        (), \<lparr>trace = [], sends = 1, loads = 0\<rparr>)
   \<and> \<not> RetryIf sample_env Query (Some (APIError ''please check your arguments'' 400 ''bad request''))
   \<and> DoRetry sample_env rejected Query ((), world0)
     = (Some (RetryError [APIError ''please check your arguments'' 400 ''bad request'']),
        (), \<lparr>trace = [], sends = 1, loads = 0\<rparr>)"
proof -
  have h: "rejected ((), world0)
     = (Some (APIError ''please check your arguments'' 400 ''bad request''),
        (), \<lparr>trace = [], sends = 1, loads = 0\<rparr>)"
    by (simp add: rejected_def world0_def)
  have n: "\<not> RetryIf sample_env Query
               (Some (APIError ''please check your arguments'' 400 ''bad request''))"
    by (simp add: RetryIf_def sample_env_def)
  show ?thesis
    using h n DoRetry_retries_iff [where f = rejected and w = "((), world0)" and E = sample_env
        and t = Query, OF h]
    by simp
qed

text \<open>
  C2 as stated fails: in the sample environment a proxy error of class Page is retried,
  although it is none of the three kinds of error the claim lists.
\<close>

theorem DoRetry_retries_iff_counterexample:
  "RetryIf sample_env Page (Some (APIError ''please retry again later'' 520 ''proxy error''))
   \<and> \<not> spec_retryable sample_env Page (APIError ''please retry again later'' 520 ''proxy error'')"
  by (simp add: RetryIf_def spec_retryable_def sample_env_def)

text \<open>
  C7. If every attempt fails with a transport-send failure, \<^verbatim>\<open>DoRetry\<close> with class
  Query gives up after exactly 5 attempts separated by sleeps of 2 seconds, and with
  any other class after exactly 3 attempts separated by sleeps of 1 second; the delay
  is the same before every retry.
\<close>

theorem DoRetry_send_failure_attempts:
  assumes "\<forall>s. \<exists>e. fst (f s) = Some e \<and> errors_Is e ErrDoRequest"
  shows "snd (DoRetry E f Query w) = attempts_spaced f 2 5 w
       \<and> (\<exists>es. fst (DoRetry E f Query w) = Some (RetryError es) \<and> length es = 5)
       \<and> (t \<noteq> Query \<longrightarrow>
            snd (DoRetry E f t w) = attempts_spaced f 1 3 w
          \<and> (\<exists>es. fst (DoRetry E f t w) = Some (RetryError es) \<and> length es = 3))"
proof -
  have fail: "\<forall>s. \<exists>e. fst (f s) = Some e \<and> RetryIf E t' (Some e)" for t'
    using assms RetryIf_send_failure by blast
  show ?thesis
    using retry_Do_loop_all_retried [OF fail [of Query], of 0 5 2 "[]" w]
      retry_Do_loop_all_retried [OF fail [of t], of 0 3 1 "[]" w]
    by (auto simp: DoRetry_def retry_Do_def)
qed

text \<open>In the sample environment every request fails to send.\<close>

lemma dead_post:
  "requestOnly sample_env sample_client ctx0 ''POST'' ''/v1/query'' s
     = (Some (Wrap ErrDoRequest ''connection refused''), (),
        (snd s)\<lparr>trace := trace (snd s) @ [HTTPDo post_request], sends := sends (snd s) + 1\<rparr>)"
  by (simp add: model_defs sample_defs fmt_nat.simps Let_def post_request_def)

theorem DoRetry_send_failure_attempts_witness:
  "(\<forall>s. \<exists>e. fst (requestOnly sample_env sample_client ctx0 ''POST'' ''/v1/query'' s) = Some e
          \<and> errors_Is e ErrDoRequest)
   \<and> snd (DoRetry sample_env (requestOnly sample_env sample_client ctx0 ''POST'' ''/v1/query'')
            Query ((), world0))
       = ((), \<lparr>trace = [HTTPDo post_request, Sleep 2, HTTPDo post_request, Sleep 2,
                         HTTPDo post_request, Sleep 2, HTTPDo post_request, Sleep 2,
                         HTTPDo post_request],
                sends = 5, loads = 0\<rparr>)
   \<and> snd (DoRetry sample_env (requestOnly sample_env sample_client ctx0 ''POST'' ''/v1/query'')
            Page ((), world0))
       = ((), \<lparr>trace = [HTTPDo post_request, Sleep 1, HTTPDo post_request, Sleep 1,
                         HTTPDo post_request],
                sends = 3, loads = 0\<rparr>)"
proof -
  let ?f = "requestOnly sample_env sample_client ctx0 ''POST'' ''/v1/query''"
  have h: "\<forall>s. \<exists>e. fst (?f s) = Some e \<and> errors_Is e ErrDoRequest"
    by (simp add: dead_post)
  have "attempts_spaced ?f 2 5 ((), world0)
     = ((), \<lparr>trace = [HTTPDo post_request, Sleep 2, HTTPDo post_request, Sleep 2,
                       HTTPDo post_request, Sleep 2, HTTPDo post_request, Sleep 2,
                       HTTPDo post_request],
              sends = 5, loads = 0\<rparr>)"
    by (simp add: eval_nat_numeral dead_post time_Sleep_def emit_def world0_def)
  moreover have "attempts_spaced ?f 1 3 ((), world0)
     = ((), \<lparr>trace = [HTTPDo post_request, Sleep 1, HTTPDo post_request, Sleep 1,
                       HTTPDo post_request],
              sends = 3, loads = 0\<rparr>)"
    by (simp add: eval_nat_numeral dead_post time_Sleep_def emit_def world0_def)
  ultimately show ?thesis
    using h DoRetry_send_failure_attempts [OF h, of sample_env "((), world0)" Page] by simp
qed

subsection \<open>Request headers\<close>

lemma header_Get_Set:
  "header_Get (header_Set k v hs) k' = (if k' = k then Some v else header_Get hs k')"
  by (simp add: header_Get_def header_Set_def update_conv')

text \<open>
  C5 (the code at the failing input). Whatever the call context carries, also an
  external agent tag, the user-agent header \<^verbatim>\<open>makeHeaders\<close> returns is the driver name
  and version alone: the header set for a tagged context is overwritten by the
  unconditional \<^verbatim>\<open>headers.Set(UserAgent, ...)\<close> that follows the \<^verbatim>\<open>if\<close>.
\<close>

theorem makeHeaders_user_agent:
  assumes "makeHeaders E c ctx w = (Inr hs, w')"
  shows "header_Get hs UserAgent = Some (''databend-go/'' @ version E)"
  using assms
  by (auto simp: makeHeaders_def Let_def header_Get_Set
      split: if_splits prod.splits sum.splits option.splits)

theorem makeHeaders_user_agent_witness:
  "ctx_string tagged_ctx ContextUserAgentID = Some ''my-app/1.0''
   \<and> (\<exists>hs. makeHeaders sample_env sample_client tagged_ctx world0 = (Inr hs, world0)
          \<and> header_Get hs UserAgent = Some ''databend-go/v0.7.0'')"
proof -
  have tag: "ctx_string tagged_ctx ContextUserAgentID = Some ''my-app/1.0''"
    by (simp add: ctx_string_def tagged_ctx_def)
  obtain hs where hs: "makeHeaders sample_env sample_client tagged_ctx world0 = (Inr hs, world0)"
    by (simp add: makeHeaders_def authMethod_def AuthMethodUserPassword_def sample_client_def
        Let_def)
  have "header_Get hs UserAgent = Some (''databend-go/'' @ version sample_env)"
    using makeHeaders_user_agent [OF hs] .
  then show ?thesis using tag hs by (simp add: sample_env_def)
qed

subsection \<open>Query ids and cursors\<close>

lemma sint_succ_int64:
  fixes x :: "64 word"
  assumes "sint x < 2 ^ 63 - 1"
  shows "sint (x + 1) = sint x + 1"
proof -
  have lo: "- (2 ^ 63) \<le> sint x"
    using sint_ge [of x] by simp
  have "sint (x + 1) = signed_take_bit 63 (sint x + 1)"
    by (simp add: sint_word_ariths)
  also have "\<dots> = sint x + 1"
    using lo assms by (intro signed_take_bit_int_eq_self) simp_all
  finally show ?thesis .
qed

lemma applySessionState_keeps:
  "QuerySeq (applySessionState E c r) = QuerySeq c"
  "SessionID (applySessionState E c r) = SessionID c"
  "rows (applySessionState E c r) = rows c"
  by (simp_all add: applySessionState_def split: option.splits)

lemma NextQuery_fields:
  "QuerySeq (NextQuery c) = QuerySeq c + 1"
  "SessionID (NextQuery c) = SessionID c"
  "rows (NextQuery c) = map_option rows_Close (rows c)"
  "sessionStateRaw (NextQuery c) = sessionStateRaw c"
  "sessionState (NextQuery c) = sessionState c"
  by (simp_all add: NextQuery_def Let_def split: option.splits)

text \<open>
  The client a submission leaves behind: the one \<^verbatim>\<open>NextQuery\<close> made, with the session
  state of the response applied when the request succeeded.
\<close>

lemma startQueryRequest_client:
  assumes "startQueryRequest E c ctx request w = (res, c', w')"
  shows "(\<exists>err. res = Inl err \<and> c' = NextQuery c)
       \<or> (\<exists>resp. res = Inr resp \<and> c' = applySessionState E (NextQuery c) (Some resp))"
  using assms
  by (auto simp: startQueryRequest_def Let_def split: prod.splits option.splits)

text \<open>
  C8 (as amended). While the sequence counter is below the largest int64, every
  submission (\<^verbatim>\<open>startQueryRequest\<close>, whatever its outcome) raises the counter, and so
  the numeric suffix of the query id, by exactly one, keeps the session id, and closes
  the cursor left by the previous query if there is one.
\<close>

theorem NextQuery_sequence:
  assumes "sint (QuerySeq c) < 2 ^ 63 - 1"
      and "startQueryRequest E c ctx request w = (res, c', w')"
  shows "sint (QuerySeq c') = sint (QuerySeq c) + 1
       \<and> SessionID c' = SessionID c
       \<and> GetQueryID c' = SessionID c @ ''.'' @ fmt_d (sint (QuerySeq c) + 1)
       \<and> rows c' = map_option rows_Close (rows c)
       \<and> (\<forall>r. rows c = Some r \<longrightarrow> (\<exists>r'. rows c' = Some r' \<and> isClosed r'))"
proof -
  have seq: "QuerySeq c' = QuerySeq c + 1" and sid: "SessionID c' = SessionID c"
    and rws: "rows c' = map_option rows_Close (rows c)"
    using startQueryRequest_client [OF assms(2)]
    by (auto simp: applySessionState_keeps NextQuery_fields)
  have "sint (QuerySeq c') = sint (QuerySeq c) + 1"
    using seq sint_succ_int64 [OF assms(1)] by simp
  then show ?thesis
    using sid rws by (auto simp: GetQueryID_def rows_Close_def)
qed

theorem NextQuery_sequence_witness:
  "sint (QuerySeq open_cursor_client) < 2 ^ 63 - 1
   \<and> GetQueryID open_cursor_client = ''5e1f.0''
   \<and> GetQueryID (fst (snd (startQueryRequest sample_env open_cursor_client ctx0 select1 world0)))
       = ''5e1f.1''
   \<and> rows open_cursor_client = Some \<lparr>isClosed = False\<rparr>
   \<and> rows (fst (snd (startQueryRequest sample_env open_cursor_client ctx0 select1 world0)))
       = Some \<lparr>isClosed = True\<rparr>"
proof -
  let ?S = "startQueryRequest sample_env open_cursor_client ctx0 select1 world0"
  have h: "sint (QuerySeq open_cursor_client) < 2 ^ 63 - 1"
    by (simp add: open_cursor_client_def sample_client_def)
  have s: "?S = (fst ?S, fst (snd ?S), snd (snd ?S))"
    by simp
  show ?thesis
    using h NextQuery_sequence [OF h s]
    by (simp add: open_cursor_client_def sample_client_def GetQueryID_def fmt_d_def
        fmt_nat.simps rows_Close_def)
qed

text \<open>
  C8 as stated fails at the end of the counter's range: a submission on a client whose
  counter is the largest int64 wraps it to the smallest, so the numeric suffix drops.
\<close>

theorem NextQuery_sequence_counterexample:
  "sint (QuerySeq max_client) = 9223372036854775807
   \<and> sint (QuerySeq (fst (snd (startQueryRequest sample_env max_client ctx0 select1 world0))))
       = - 9223372036854775808"
proof -
  let ?S = "startQueryRequest sample_env max_client ctx0 select1 world0"
  have s: "?S = (fst ?S, fst (snd ?S), snd (snd ?S))"
    by simp
  have "QuerySeq (fst (snd ?S)) = QuerySeq max_client + 1"
    using startQueryRequest_client [OF s]
    by (auto simp: applySessionState_keeps NextQuery_fields)
  then show ?thesis
    by (simp add: max_client_def sample_client_def)
qed

subsection \<open>Session state\<close>

text \<open>
  C3. When \<^verbatim>\<open>startQueryRequest\<close>, \<^verbatim>\<open>StartQuery\<close> or \<^verbatim>\<open>PollQuery\<close> returns a response that
  carries a session payload, the client's stored raw session state is that payload, and
  the structured state is the old one with the payload decoded into it; nothing is
  assumed about the response's in-band error, so a failed query's response updates the
  session state too.
\<close>

theorem session_state_applied:
  "(startQueryRequest E c ctx request w = (Inr resp, c', w') \<and> Session resp = Some p \<longrightarrow>
      sessionStateRaw c' = Some p
    \<and> sessionState c' = map_option (unmarshalSession E p) (sessionState c))
 \<and> (StartQuery E c ctx query args w = (Inr resp, c', w') \<and> Session resp = Some p \<longrightarrow>
      sessionStateRaw c' = Some p
    \<and> sessionState c' = map_option (unmarshalSession E p) (sessionState c))
 \<and> (PollQuery E c ctx nextURI w = (Inr resp, c', w') \<and> Session resp = Some p \<longrightarrow>
      sessionStateRaw c' = Some p
    \<and> sessionState c' = map_option (unmarshalSession E p) (sessionState c))"
proof -
  have start: "sessionStateRaw c' = Some p
      \<and> sessionState c' = map_option (unmarshalSession E p) (sessionState c)"
    if "startQueryRequest E c ctx request w = (Inr resp, c', w')" "Session resp = Some p"
    for request
    using startQueryRequest_client [OF that(1)] that(2)
    by (auto simp: applySessionState_def NextQuery_fields)
  have poll: "sessionStateRaw c' = Some p
      \<and> sessionState c' = map_option (unmarshalSession E p) (sessionState c)"
    if "PollQuery E c ctx nextURI w = (Inr resp, c', w')" "Session resp = Some p"
    using that
    by (auto simp: PollQuery_def Let_def applySessionState_def split: prod.splits option.splits)
  have sq: "sessionStateRaw c' = Some p
      \<and> sessionState c' = map_option (unmarshalSession E p) (sessionState c)"
    if "StartQuery E c ctx query args w = (Inr resp, c', w')" "Session resp = Some p"
    using that start
    by (auto simp: StartQuery_def split: sum.splits)
  show ?thesis using start poll sq by blast
qed

theorem session_state_applied_witness:
  "fst (StartQuery failed_commit_env sample_client ctx0 ''COMMIT'' [] world0)
      = Inr failed_commit_resp
 \<and> QueryResponse.Error failed_commit_resp = Some ''commit failed''
 \<and> Session failed_commit_resp = Some ''{txn_state: Fail}''
 \<and> sessionStateRaw
      (fst (snd (StartQuery failed_commit_env sample_client ctx0 ''COMMIT'' [] world0)))
      = Some ''{txn_state: Fail}''
 \<and> fst (PollQuery failed_commit_env sample_client ctx0 ''/v1/query/q/page/1'' world0)
      = Inr failed_commit_resp
 \<and> sessionStateRaw
      (fst (snd (PollQuery failed_commit_env sample_client ctx0 ''/v1/query/q/page/1'' world0)))
      = Some ''{txn_state: Fail}''"
proof -
  let ?S = "StartQuery failed_commit_env sample_client ctx0 ''COMMIT'' [] world0"
  let ?P = "PollQuery failed_commit_env sample_client ctx0 ''/v1/query/q/page/1'' world0"
  have s1: "fst ?S = Inr failed_commit_resp"
    by (simp add: model_defs failed_commit_env_def failed_commit_resp_def sample_defs)
  have p1: "fst ?P = Inr failed_commit_resp"
    by (simp add: model_defs failed_commit_env_def failed_commit_resp_def sample_defs)
  have s2: "?S = (Inr failed_commit_resp, fst (snd ?S), snd (snd ?S))"
    using s1 by (simp add: prod_eq_iff)
  have p2: "?P = (Inr failed_commit_resp, fst (snd ?P), snd (snd ?P))"
    using p1 by (simp add: prod_eq_iff)
  have e: "Session failed_commit_resp = Some ''{txn_state: Fail}''"
    "QueryResponse.Error failed_commit_resp = Some ''commit failed''"
    by (simp_all add: failed_commit_resp_def)
  show ?thesis
    using s1 p1 e
      session_state_applied [of failed_commit_env sample_client ctx0 _ world0
        failed_commit_resp "fst (snd ?S)" "snd (snd ?S)" "''{txn_state: Fail}''" "''COMMIT''" "[]"
        "''/v1/query/q/page/1''"]
      s2
      session_state_applied [of failed_commit_env sample_client ctx0 _ world0
        failed_commit_resp "fst (snd ?P)" "snd (snd ?P)" "''{txn_state: Fail}''" "''COMMIT''" "[]"
        "''/v1/query/q/page/1''"]
      p2
    by simp
qed

subsection \<open>Polling\<close>

text \<open>A finished response ends the polling at once, whatever the fuel.\<close>

lemma PollUntilQueryEnd_finished:
  "ReadFinished resp \<Longrightarrow> PollUntilQueryEnd fuel E c ctx resp w = (Some (Inr resp), c, w)"
  by (subst PollUntilQueryEnd.simps) simp

text \<open>
  C1 (the code at the failing input). When the response is not finished and the poll of
  its continuation URI returns a page with no error, the loop goes on with the same
  response, the page's own continuation being dropped with the variable that held it:
  the next iteration polls the same URI again, also when the page was the last one.
\<close>

theorem PollUntilQueryEnd_repolls:
  assumes "\<not> ReadFinished resp"
      and "PollQuery E c ctx (NextURI resp) w = (Inr page, c1, w1)"
      and "QueryResponse.Error page = None"
  shows "PollUntilQueryEnd (Suc fuel) E c ctx resp w = PollUntilQueryEnd fuel E c1 ctx resp w1"
  using assms by (subst PollUntilQueryEnd.simps) (simp add: Let_def)

text \<open>
  Against a server that answers the first poll with the last page, the loop never
  returns: with any fuel it has fetched the same continuation URI once per unit of fuel.
\<close>

lemma last_page_poll:
  "PollQuery last_page_env sample_client ctx0 ''/v1/query/q/page/1'' w
     = (Inr zeroQueryResponse, sample_client,
        w\<lparr>trace := trace w @ [HTTPDo page_request], sends := sends w + 1\<rparr>)"
  by (simp add: model_defs last_page_env_def sample_env_def sample_client_def ctx0_def
      page_request_def fmt_nat.simps)

lemma last_page_never_ends:
  "PollUntilQueryEnd fuel last_page_env sample_client ctx0 first_page w
     = (None, sample_client,
        w\<lparr>trace := trace w @ replicate fuel (HTTPDo page_request), sends := sends w + fuel\<rparr>)"
proof (induction fuel arbitrary: w)
  case 0
  then show ?case
    by (subst PollUntilQueryEnd.simps) (simp add: ReadFinished_def first_page_def)
next
  case (Suc fuel)
  have nf: "\<not> ReadFinished first_page"
    by (simp add: ReadFinished_def first_page_def)
  have p: "PollQuery last_page_env sample_client ctx0 (NextURI first_page) w
     = (Inr zeroQueryResponse, sample_client,
        w\<lparr>trace := trace w @ [HTTPDo page_request], sends := sends w + 1\<rparr>)"
    using last_page_poll by (simp add: first_page_def)
  have e: "QueryResponse.Error zeroQueryResponse = None"
    by (simp add: zeroQueryResponse_def)
  have "PollUntilQueryEnd (Suc fuel) last_page_env sample_client ctx0 first_page w
          = PollUntilQueryEnd fuel last_page_env sample_client ctx0 first_page
              (w\<lparr>trace := trace w @ [HTTPDo page_request], sends := sends w + 1\<rparr>)"
    using nf p e by (subst PollUntilQueryEnd.simps) (simp add: Let_def)
  then show ?case
    unfolding Suc.IH by (simp add: replicate_append_same)
qed

theorem PollUntilQueryEnd_repolls_witness:
  "\<not> ReadFinished first_page
   \<and> PollQuery last_page_env sample_client ctx0 (NextURI first_page) world0
       = (Inr zeroQueryResponse, sample_client, \<lparr>trace = [HTTPDo page_request], sends = 1, loads = 0\<rparr>)
   \<and> ReadFinished zeroQueryResponse
   \<and> PollUntilQueryEnd 3 last_page_env sample_client ctx0 first_page world0
       = (None, sample_client,
          \<lparr>trace = [HTTPDo page_request, HTTPDo page_request, HTTPDo page_request],
           sends = 3, loads = 0\<rparr>)"
proof -
  have nf: "\<not> ReadFinished first_page"
    by (simp add: ReadFinished_def first_page_def)
  have p: "PollQuery last_page_env sample_client ctx0 (NextURI first_page) world0
     = (Inr zeroQueryResponse, sample_client, \<lparr>trace = [HTTPDo page_request], sends = 1, loads = 0\<rparr>)"
    using last_page_poll [of world0] by (simp add: first_page_def world0_def)
  have e: "QueryResponse.Error zeroQueryResponse = None"
    by (simp add: zeroQueryResponse_def)
  have "PollUntilQueryEnd (Suc 2) last_page_env sample_client ctx0 first_page world0
          = PollUntilQueryEnd 2 last_page_env sample_client ctx0 first_page
              \<lparr>trace = [HTTPDo page_request], sends = 1, loads = 0\<rparr>"
    using PollUntilQueryEnd_repolls [OF nf p e] .
  then show ?thesis
    using nf p by (simp add: last_page_never_ends eval_nat_numeral ReadFinished_def zeroQueryResponse_def)
qed

subsection \<open>Presigned uploads\<close>

text \<open>
  C4 (the code at the failing input). A first row of exactly two columns passes the
  validation (\<^verbatim>\<open>len(resp.Data[0]) < 2\<close> is false) and the read of the URL at index 2
  panics.
\<close>

theorem GetPresignedURL_two_columns:
  assumes "QuerySync fuel E c ctx (''PRESIGN UPLOAD '' @ StageLocation_String stage) [] w
             = (Some (Inr resp), c1, w1)"
      and "Data resp = [method, headers] # rest"
  shows "GetPresignedURL fuel E c ctx stage w = (Some (Inl (Panic ''index out of range'')), c1, w1)"
  using assms by (simp add: GetPresignedURL_def index_def)

text \<open>With three columns or more the three reads are in range.\<close>

lemma GetPresignedURL_three_columns:
  assumes "QuerySync fuel E c ctx (''PRESIGN UPLOAD '' @ StageLocation_String stage) [] w
             = (Some (Inr resp), c1, w1)"
      and "Data resp = (method # headers # url # cols) # rest"
  shows "GetPresignedURL fuel E c ctx stage w =
           (Some (case unmarshalHeaders E headers of
                    Inl err \<Rightarrow> Inl (Wrap err ''failed to unmarshal headers'')
                  | Inr hs \<Rightarrow> Inr \<lparr>Method = method, Headers = hs, URL = url\<rparr>), c1, w1)"
  using assms by (simp add: GetPresignedURL_def index_def split: sum.splits)

theorem GetPresignedURL_two_columns_witness:
  "fst (QuerySync 0 presign_env sample_client ctx0 ''PRESIGN UPLOAD @~/upload/data.csv'' [] world0)
     = Some (Inr presign_resp)
   \<and> Data presign_resp = [[''PUT'', ''{}'']]
   \<and> fst (GetPresignedURL 0 presign_env sample_client ctx0 stage0 world0)
     = Some (Inl (Panic ''index out of range''))"
proof -
  let ?Q = "QuerySync 0 presign_env sample_client ctx0
              (''PRESIGN UPLOAD '' @ StageLocation_String stage0) [] world0"
  have sql: "''PRESIGN UPLOAD '' @ StageLocation_String stage0 = ''PRESIGN UPLOAD @~/upload/data.csv''"
    by (simp add: StageLocation_String_def stage0_def)
  have q1: "fst ?Q = Some (Inr presign_resp)"
    by (simp add: model_defs presign_env_def presign_resp_def sample_defs
        PollUntilQueryEnd_finished StageLocation_String_def stage0_def)
  have q2: "?Q = (Some (Inr presign_resp), fst (snd ?Q), snd (snd ?Q))"
    using q1 by (simp add: prod_eq_iff)
  have d: "Data presign_resp = [''PUT'', ''{}''] # []"
    by (simp add: presign_resp_def)
  show ?thesis
    using q1 d GetPresignedURL_two_columns [OF q2 d] sql by simp
qed

subsection \<open>The request executor\<close>

lemma LoadAccessToken_world:
  "snd (LoadAccessToken c force w) = w
   \<or> snd (LoadAccessToken c force w) = (emit (TokenLoad force) w)\<lparr>loads := loads w + 1\<rparr>"
  by (simp add: LoadAccessToken_def split: option.splits)

lemma makeHeaders_world:
  assumes "makeHeaders E c ctx w = (r, w')"
  shows "w' = w \<or> w' = (emit (TokenLoad False) w)\<lparr>loads := loads w + 1\<rparr>"
  using assms LoadAccessToken_world [of c False w]
  by (auto simp: makeHeaders_def Let_def split: if_splits prod.splits sum.splits)

lemma makeHeaders_counts:
  assumes "makeHeaders E c ctx w = (r, w')"
  shows "forced_reloads w' = forced_reloads w" "sends w' = sends w"
  using makeHeaders_world [OF assms] by (auto simp: forced_reloads_def emit_def)

lemma cli_Do_counts:
  assumes "cli_Do E rq w = (r, w')"
  shows "forced_reloads w' = forced_reloads w" "sends w' = sends w + 1"
    "trace w' = trace w @ [HTTPDo rq]"
  using assms by (auto simp: cli_Do_def forced_reloads_def emit_def)

text \<open>The last attempt of the loop: no forced reload, and at most one request.\<close>

lemma doRequest_loop_last:
  assumes "doRequest_loop E c ctx httpReq resp maxRetries w = (err, resp', wz)"
  shows "forced_reloads wz = forced_reloads w \<and> sends w \<le> sends wz \<and> sends wz \<le> sends w + 1
       \<and> ((\<exists>hs w1. makeHeaders E c ctx w = (Inr hs, w1)) \<longrightarrow> sends wz = sends w + 1)"
proof (cases "makeHeaders E c ctx w")
  case (Pair r w1)
  note mh = makeHeaders_counts [OF Pair]
  show ?thesis
  proof (cases r)
    case (Inl e)
    then show ?thesis using assms Pair mh
      by (subst (asm) doRequest_loop.simps) auto
  next
    case (Inr hs)
    obtain res w2 where d: "cli_Do E (prepare E c httpReq hs) w1 = (res, w2)"
      by (cases "cli_Do E (prepare E c httpReq hs) w1")
    note cd = cli_Do_counts [OF d]
    have "wz = w2"
      using assms Pair Inr d
      by (subst (asm) doRequest_loop.simps)
         (auto simp: Let_def split: http_result.splits if_splits option.splits prod.splits)
    then show ?thesis using mh cd Pair Inr by simp
  qed
qed

lemma authMethod_token_loader:
  assumes "authMethod c = AuthMethodAccessToken"
  shows "\<exists>load. accessTokenLoader c = Some load"
  using assms
  by (auto simp: authMethod_def AuthMethodAccessToken_def AuthMethodUserPassword_def
      split: if_splits)

lemma forced_reload_trace:
  assumes "authMethod c = AuthMethodAccessToken"
  shows "trace (snd (LoadAccessToken c True w)) = trace w @ [TokenLoad True]"
    and "sends (snd (LoadAccessToken c True w)) = sends w"
    and "forced_reloads (snd (LoadAccessToken c True w)) = forced_reloads w + 1"
  using authMethod_token_loader [OF assms]
  by (auto simp: LoadAccessToken_def emit_def forced_reloads_def)

text \<open>
  C6. Let an attempt of \<^verbatim>\<open>doRequest\<close> (the first, or the last) build its headers, send
  its request and receive a 401. Under token authentication with an attempt left, the
  call goes on as the last attempt after one forced token reload: the trace grows by the
  request and that reload, the whole call makes exactly one forced reload and one or two
  requests, none after the further attempt. Under user/password authentication, or on
  the last attempt, the call returns the authorization failure with the status and the
  body at once: one request, no reload, no retry.
\<close>

theorem doRequest_unauthorized:
  assumes hdr: "makeHeaders E c ctx w = (Inr hs, w1)"
      and unauth: "cli_Do E (prepare E c httpReq hs) w1 = (Response 401 ctype body, w2)"
      and run: "doRequest_loop E c ctx httpReq resp i w = (err, resp', wz)"
      and i: "i = 1 \<or> i = maxRetries"
  shows
   "(authMethod c = AuthMethodAccessToken \<and> i < maxRetries \<longrightarrow>
        (err, resp', wz)
          = doRequest_loop E c ctx (prepare E c httpReq hs) resp maxRetries
              (snd (LoadAccessToken c True w2))
      \<and> trace (snd (LoadAccessToken c True w2))
          = trace w1 @ [HTTPDo (prepare E c httpReq hs), TokenLoad True]
      \<and> forced_reloads wz = forced_reloads w + 1
      \<and> sends w + 1 \<le> sends wz \<and> sends wz \<le> sends w + 2)
  \<and> (authMethod c = AuthMethodUserPassword \<or> i = maxRetries \<longrightarrow>
        err = Some (NewAPIError ''authorization failed'' 401 body) \<and> resp' = resp \<and> wz = w2
      \<and> trace wz = trace w1 @ [HTTPDo (prepare E c httpReq hs)]
      \<and> forced_reloads wz = forced_reloads w \<and> sends wz = sends w + 1)"
proof -
  note mh = makeHeaders_counts [OF hdr]
  note cd = cli_Do_counts [OF unauth]
  have ile: "i \<le> maxRetries"
    using i by (auto simp: maxRetries_def)
  have retry: ?thesis if tok: "authMethod c = AuthMethodAccessToken" and lt: "i < maxRetries"
  proof -
    have i1: "i + 1 = maxRetries"
      using i lt by (auto simp: maxRetries_def)
    have step: "(err, resp', wz)
          = doRequest_loop E c ctx (prepare E c httpReq hs) resp maxRetries
              (snd (LoadAccessToken c True w2))"
      using run hdr unauth tok lt ile i1
      by (subst (asm) doRequest_loop.simps) (simp add: Let_def)
    note fr = forced_reload_trace [OF tok, of w2]
    have last: "forced_reloads wz = forced_reloads (snd (LoadAccessToken c True w2))
        \<and> sends (snd (LoadAccessToken c True w2)) \<le> sends wz
        \<and> sends wz \<le> sends (snd (LoadAccessToken c True w2)) + 1"
      using doRequest_loop_last [OF step [symmetric]] by simp
    have notbasic: "authMethod c \<noteq> AuthMethodUserPassword"
      using tok by (simp add: AuthMethodAccessToken_def AuthMethodUserPassword_def)
    show ?thesis
      using step fr last mh cd tok lt notbasic by (auto simp: maxRetries_def)
  qed
  have stop: ?thesis if "authMethod c = AuthMethodUserPassword \<or> i = maxRetries"
  proof -
    have no: "\<not> (authMethod c = AuthMethodAccessToken \<and> i < maxRetries)"
      using that by (auto simp: AuthMethodAccessToken_def AuthMethodUserPassword_def)
    have "(err, resp', wz) = (Some (NewAPIError ''authorization failed'' 401 body), resp, w2)"
      using run hdr unauth no ile
      by (subst (asm) doRequest_loop.simps) (auto simp: Let_def)
    then show ?thesis
      using no mh cd by auto
  qed
  show ?thesis
    using retry stop by blast
qed

lemmas sample_401_defs =
  expired_env_def locked_env_def token_client_def get_page_def sent_with_def rotated_world_def

theorem doRequest_unauthorized_witness:
  "doRequest_loop expired_env token_client ctx0 get_page None 1 world0 = (None, None, rotated_world)
   \<and> forced_reloads rotated_world = 1 \<and> sends rotated_world = 2
   \<and> doRequest_loop locked_env sample_client ctx0 get_page None 1 world0
       = (Some (APIError ''authorization failed'' 401 ''bad credentials''), None,
          \<lparr>trace = [HTTPDo (sent_with ''Basic cm9vdDpwdw=='')], sends = 1, loads = 0\<rparr>)"
proof -
  let ?hs = "[(WarehouseRoute, ''warehouse''), (UserAgent, ''databend-go/v0.7.0''),
              (DatabendQueryIDHeader, ''5e1f.0''), (Authorization, ''Bearer stale'')]"
  let ?w1 = "\<lparr>trace = [TokenLoad False], sends = 0, loads = 1\<rparr>"
  let ?w2 = "\<lparr>trace = [TokenLoad False, HTTPDo (sent_with ''Bearer stale'')], sends = 1, loads = 1\<rparr>"
  let ?bs = "[(WarehouseRoute, ''warehouse''), (UserAgent, ''databend-go/v0.7.0''),
              (DatabendQueryIDHeader, ''5e1f.0''), (Authorization, ''Basic cm9vdDpwdw=='')]"
  let ?b2 = "\<lparr>trace = [HTTPDo (sent_with ''Basic cm9vdDpwdw=='')], sends = 1, loads = 0\<rparr>"
  have hdr: "makeHeaders expired_env token_client ctx0 world0 = (Inr ?hs, ?w1)"
    by (simp add: model_defs sample_defs sample_401_defs fmt_nat.simps)
  have unauth: "cli_Do expired_env (prepare expired_env token_client get_page ?hs) ?w1
                  = (Response 401 ''text/plain'' ''token expired'', ?w2)"
    by (simp add: model_defs sample_defs sample_401_defs)
  have run: "doRequest_loop expired_env token_client ctx0 get_page None 1 world0
               = (None, None, rotated_world)"
    by (simp add: model_defs sample_defs sample_401_defs fmt_nat.simps)
  have tok: "authMethod token_client = AuthMethodAccessToken \<and> (1::nat) < maxRetries"
    by (simp add: model_defs sample_defs sample_401_defs)
  have bhdr: "makeHeaders locked_env sample_client ctx0 world0 = (Inr ?bs, world0)"
    by (simp add: model_defs sample_defs sample_401_defs fmt_nat.simps)
  have bunauth: "cli_Do locked_env (prepare locked_env sample_client get_page ?bs) world0
                  = (Response 401 ''text/plain'' ''bad credentials'', ?b2)"
    by (simp add: model_defs sample_defs sample_401_defs)
  let ?B = "doRequest_loop locked_env sample_client ctx0 get_page None 1 world0"
  have brun: "?B = (fst ?B, fst (snd ?B), snd (snd ?B))"
    by simp
  have basic: "authMethod sample_client = AuthMethodUserPassword"
    by (simp add: model_defs sample_defs)
  have f0: "forced_reloads world0 = 0" "sends world0 = 0"
    by (simp_all add: forced_reloads_def world0_def)
  have i1: "(1::nat) = 1 \<or> (1::nat) = maxRetries"
    by simp
  have A: "forced_reloads rotated_world = forced_reloads world0 + 1"
    using doRequest_unauthorized [OF hdr unauth run i1] tok by blast
  have B: "fst ?B = Some (NewAPIError ''authorization failed'' 401 ''bad credentials'')
      \<and> fst (snd ?B) = None \<and> snd (snd ?B) = ?b2"
    using doRequest_unauthorized [OF bhdr bunauth brun i1] basic by blast
  have s2: "sends rotated_world = 2"
    by (simp add: rotated_world_def)
  show ?thesis
    using run A B f0 s2 by (simp add: NewAPIError_def prod_eq_iff)
qed

subsection \<open>What a call sends\<close>

lemma sends_only_refl: "sends_only Q w w"
  by (simp add: sends_only_def)

lemma sends_only_trans:
  assumes "sends_only Q w w1" and "sends_only Q w1 w2"
  shows "sends_only Q w w2"
proof -
  obtain e1 e2 where "trace w1 = trace w @ e1" "\<forall>r. HTTPDo r \<in> set e1 \<longrightarrow> Q r"
    "trace w2 = trace w1 @ e2" "\<forall>r. HTTPDo r \<in> set e2 \<longrightarrow> Q r"
    using assms unfolding sends_only_def by blast
  then show ?thesis
    unfolding sends_only_def by (intro exI [of _ "e1 @ e2"]) auto
qed

lemma sends_only_mono:
  assumes "sends_only Q w w'" and "\<And>r. Q r \<Longrightarrow> Q' r"
  shows "sends_only Q' w w'"
  using assms unfolding sends_only_def by blast

lemma sends_only_emit:
  assumes "\<And>r. ev = HTTPDo r \<Longrightarrow> Q r"
  shows "sends_only Q w (emit ev w)" "sends_only Q w ((emit ev w)\<lparr>sends := n\<rparr>)"
    "sends_only Q w ((emit ev w)\<lparr>loads := n\<rparr>)"
  using assms unfolding sends_only_def emit_def by auto

lemma LoadAccessToken_sends_only: "sends_only Q w (snd (LoadAccessToken c force w))"
  using LoadAccessToken_world [of c force w] sends_only_emit(3) [of "TokenLoad force" Q w]
  by (auto simp: sends_only_refl)

lemma makeHeaders_sends_only:
  assumes "makeHeaders E c ctx w = (r, w')"
  shows "sends_only Q w w'"
  using makeHeaders_world [OF assms] sends_only_emit(3) [of "TokenLoad False" Q w]
  by (auto simp: sends_only_refl)

lemma cli_Do_sends_only:
  assumes "cli_Do E rq w = (r, w')" and "Q rq"
  shows "sends_only Q w w'"
  using assms sends_only_emit(2) [of "HTTPDo rq" Q w] by (auto simp: cli_Do_def)

lemma call_of_prepare: "call_of m u b cx (prepare E c rq hs) = call_of m u b cx rq"
  by (simp add: call_of_def prepare_def Let_def)

lemma doRequest_loop_sends_only:
  "call_of m u b cx httpReq \<Longrightarrow> doRequest_loop E c ctx httpReq resp i w = (err, resp', w') \<Longrightarrow>
     sends_only (call_of m u b cx) w w'"
proof (induction E c ctx httpReq resp i w arbitrary: err resp' w' rule: doRequest_loop.induct)
  case (1 E c ctx httpReq resp i w)
  show ?case
  proof (cases "i \<le> maxRetries")
    case False
    then show ?thesis using "1.prems"(2)
      by (subst (asm) doRequest_loop.simps) (simp add: sends_only_refl)
  next
    case True
    obtain hr w1 where mh: "makeHeaders E c ctx w = (hr, w1)"
      by (cases "makeHeaders E c ctx w")
    note s1 = makeHeaders_sends_only [OF mh, of "call_of m u b cx"]
    show ?thesis
    proof (cases hr)
      case (Inl e)
      then show ?thesis using "1.prems"(2) True mh s1
        by (subst (asm) doRequest_loop.simps) auto
    next
      case (Inr hs)
      let ?rq = "prepare E c httpReq hs"
      have q: "call_of m u b cx ?rq"
        using "1.prems"(1) by (simp add: call_of_prepare)
      obtain res w2 where cd: "cli_Do E ?rq w1 = (res, w2)"
        by (cases "cli_Do E ?rq w1")
      have s2: "sends_only (call_of m u b cx) w w2"
        using sends_only_trans [OF s1 cli_Do_sends_only [where Q = "call_of m u b cx", OF cd q]] .
      show ?thesis
      proof (cases "\<exists>ctype body. res = Response 401 ctype body
                      \<and> authMethod c = AuthMethodAccessToken \<and> i < maxRetries")
        case True
        then obtain ctype body where r: "res = Response 401 ctype body"
          and tok: "authMethod c = AuthMethodAccessToken" and lt: "i < maxRetries"
          by blast
        have rec: "doRequest_loop E c ctx ?rq resp (i + 1) (snd (LoadAccessToken c True w2))
                     = (err, resp', w')"
          using "1.prems"(2) \<open>i \<le> maxRetries\<close> mh Inr cd r tok lt
          by (subst (asm) doRequest_loop.simps) (simp add: Let_def)
        have "sends_only (call_of m u b cx) (snd (LoadAccessToken c True w2)) w'"
          using "1.IH" [OF \<open>i \<le> maxRetries\<close> mh [symmetric] Inr refl cd [symmetric] r _ _ q rec]
            tok lt by simp
        then show ?thesis
          using sends_only_trans [OF s2 sends_only_trans [OF LoadAccessToken_sends_only]] by blast
      next
        case False
        have "w' = w2"
          using "1.prems"(2) \<open>i \<le> maxRetries\<close> mh Inr cd False
          by (subst (asm) doRequest_loop.simps)
             (auto simp: Let_def split: http_result.splits if_splits option.splits prod.splits)
        then show ?thesis using s2 by simp
      qed
    qed
  qed
qed

lemma doRequest_sends_only:
  assumes "doRequest E c ctx method path req resp w = (err, resp', w')"
  shows "sends_only (call_of method (makeURL E c path) req ctx) w w'"
proof (cases "doRequestFunc c = None
    \<and> (case req of None \<Rightarrow> None | Some r \<Rightarrow> marshalRequest E r) = None
    \<and> newRequest E method (makeURL E c path) = None")
  case True
  let ?rq = "\<lparr>req_method = method, req_url = makeURL E c path, req_host = [], req_header = [],
              req_body = req, req_ctx = ctx\<rparr>"
  have "doRequest_loop E c ctx ?rq resp 1 w = (err, resp', w')"
    using assms True by (simp add: doRequest_def Let_def)
  moreover have "call_of method (makeURL E c path) req ctx ?rq"
    by (simp add: call_of_def)
  ultimately show ?thesis
    using doRequest_loop_sends_only by blast
next
  case False
  then have "w' = w"
    using assms by (auto simp: doRequest_def Let_def split: option.splits prod.splits)
  then show ?thesis by (simp add: sends_only_refl)
qed

lemma requestInto_sends_only:
  assumes "requestInto E c ctx method path req s = (err, s')"
  shows "sends_only (call_of method (makeURL E c path) req ctx) (snd s) (snd s')"
proof -
  obtain e r w' where d: "doRequest E c ctx method path req (Some (fst s)) (snd s) = (e, r, w')"
    by (cases "doRequest E c ctx method path req (Some (fst s)) (snd s)") auto
  then have "snd s' = w'"
    using assms by (auto simp: requestInto_def)
  then show ?thesis using doRequest_sends_only [OF d] by simp
qed

lemma requestOnly_sends_only:
  assumes "requestOnly E c ctx method path s = (err, s')"
  shows "sends_only (call_of method (makeURL E c path) None ctx) (snd s) (snd s')"
proof -
  obtain e r w' where d: "doRequest E c ctx method path None None (snd s) = (e, r, w')"
    by (cases "doRequest E c ctx method path None None (snd s)") auto
  then have "snd s' = w'"
    using assms by (auto simp: requestOnly_def)
  then show ?thesis using doRequest_sends_only [OF d] by simp
qed

lemma retry_Do_loop_sends_only:
  "\<forall>s e s'. f s = (e, s') \<longrightarrow> sends_only Q (snd s) (snd s') \<Longrightarrow>
   retry_Do_loop f retryIf delay attempts n errorLog s = (err, s') \<Longrightarrow>
     sends_only Q (snd s) (snd s')"
proof (induction f retryIf delay attempts n errorLog s arbitrary: err s'
    rule: retry_Do_loop.induct)
  case (1 f retryIf delay attempts n errorLog s)
  note step = "1.prems"(1) and run = "1.prems"(2)
  show ?case
  proof (cases "n < attempts")
    case False
    then show ?thesis using run
      by (subst (asm) retry_Do_loop.simps) (simp add: sends_only_refl)
  next
    case True
    obtain e s1 where fs: "f s = (e, s1)"
      by (cases "f s")
    have s01: "sends_only Q (snd s) (snd s1)"
      using step fs by blast
    show ?thesis
    proof (cases "\<exists>x. e = Some x \<and> retryIf (Some x) \<and> n \<noteq> attempts - 1")
      case True
      then obtain x where x: "e = Some x" "retryIf (Some x)" "n \<noteq> attempts - 1"
        by blast
      have rec: "retry_Do_loop f retryIf delay attempts (n + 1) (errorLog @ [x])
                   (apsnd (time_Sleep delay) s1) = (err, s')"
        using run \<open>n < attempts\<close> fs x
        by (subst (asm) retry_Do_loop.simps) simp
      have "sends_only Q (snd (apsnd (time_Sleep delay) s1)) (snd s')"
        using "1.IH" [OF \<open>n < attempts\<close> fs [symmetric] x(1) _ x(3) step rec] x(2) by simp
      moreover have "sends_only Q (snd s1) (snd (apsnd (time_Sleep delay) s1))"
        using sends_only_emit(1) [of "Sleep delay" Q "snd s1"] by (simp add: time_Sleep_def)
      ultimately show ?thesis
        using s01 sends_only_trans by blast
    next
      case False
      then have "s' = s1"
        using run \<open>n < attempts\<close> fs
        by (subst (asm) retry_Do_loop.simps) (auto split: option.splits if_splits)
      then show ?thesis using s01 by simp
    qed
  qed
qed

lemma DoRetry_sends_only:
  assumes "\<forall>s e s'. f s = (e, s') \<longrightarrow> sends_only Q (snd s) (snd s')"
      and "DoRetry E f t s = (err, s')"
  shows "sends_only Q (snd s) (snd s')"
  using retry_Do_loop_sends_only [OF assms(1)] assms(2)
  by (simp add: DoRetry_def retry_Do_def Let_def)

subsection \<open>Finalize and kill\<close>

lemma timeout_bounded: "\<exists>t. ctx_timeout (context_WithTimeout ctx 30) = Some t \<and> t \<le> 30"
  by (simp add: context_WithTimeout_def split: option.splits)

lemma CloseQuery_sends_only:
  "sends_only (call_of ''GET'' (makeURL E c (FinalURI r)) None (context_WithTimeout ctx 30)) w
     (snd (CloseQuery E c ctx (Some r) w))"
proof (cases "FinalURI r = []")
  case True
  then show ?thesis by (simp add: CloseQuery_def sends_only_refl)
next
  case False
  let ?f = "requestOnly E c (context_WithTimeout ctx 30) ''GET'' (FinalURI r)"
  obtain err s' where d: "DoRetry E ?f Final ((), w) = (err, s')"
    by (cases "DoRetry E ?f Final ((), w)")
  have "sends_only (call_of ''GET'' (makeURL E c (FinalURI r)) None (context_WithTimeout ctx 30))
          (snd ((), w)) (snd s')"
    using DoRetry_sends_only [OF _ d] requestOnly_sends_only by blast
  moreover have "snd (CloseQuery E c ctx (Some r) w) = snd s'"
    using False d by (simp add: CloseQuery_def Let_def split: prod.splits)
  ultimately show ?thesis by simp
qed

lemma KillQuery_sends_only:
  "sends_only (call_of ''GET'' (makeURL E c (KillURI r)) None (context_WithTimeout ctx 30)) w
     (snd (KillQuery E c ctx (Some r) w))"
proof (cases "KillURI r = []")
  case True
  then show ?thesis by (simp add: KillQuery_def sends_only_refl)
next
  case False
  let ?f = "requestOnly E c (context_WithTimeout ctx 30) ''GET'' (KillURI r)"
  obtain err s' where d: "DoRetry E ?f Kill ((), w) = (err, s')"
    by (cases "DoRetry E ?f Kill ((), w)")
  have "sends_only (call_of ''GET'' (makeURL E c (KillURI r)) None (context_WithTimeout ctx 30))
          (snd ((), w)) (snd s')"
    using DoRetry_sends_only [OF _ d] requestOnly_sends_only by blast
  moreover have "snd (KillQuery E c ctx (Some r) w) = snd s'"
    using False d by (simp add: KillQuery_def Let_def split: prod.splits)
  ultimately show ?thesis by simp
qed

text \<open>
  C9. \<^verbatim>\<open>CloseQuery\<close> and \<^verbatim>\<open>KillQuery\<close> return no error, for every response and every
  behaviour of the transport. Without a response, or without the finalize (kill) URI,
  they do nothing at all. Otherwise every request they send is a GET of that URI with
  no body under the context \<^verbatim>\<open>context.WithTimeout(ctx, 30s)\<close>, whose deadline is at most
  30 seconds away.
\<close>

theorem cleanup_never_fails:
  "fst (CloseQuery E c ctx response w) = None
 \<and> fst (KillQuery E c ctx response w) = None
 \<and> ((\<forall>r. response = Some r \<longrightarrow> FinalURI r = []) \<longrightarrow> snd (CloseQuery E c ctx response w) = w)
 \<and> ((\<forall>r. response = Some r \<longrightarrow> KillURI r = []) \<longrightarrow> snd (KillQuery E c ctx response w) = w)
 \<and> (\<forall>r. response = Some r \<longrightarrow>
        sends_only (call_of ''GET'' (makeURL E c (FinalURI r)) None (context_WithTimeout ctx 30))
          w (snd (CloseQuery E c ctx response w))
      \<and> sends_only (call_of ''GET'' (makeURL E c (KillURI r)) None (context_WithTimeout ctx 30))
          w (snd (KillQuery E c ctx response w)))
 \<and> (\<exists>t. ctx_timeout (context_WithTimeout ctx 30) = Some t \<and> t \<le> 30)"
proof -
  have "fst (CloseQuery E c ctx response w) = None"
    by (simp add: CloseQuery_def Let_def split: option.splits prod.splits)
  moreover have "fst (KillQuery E c ctx response w) = None"
    by (simp add: KillQuery_def Let_def split: option.splits prod.splits)
  moreover have "snd (CloseQuery E c ctx response w) = w"
    if "\<forall>r. response = Some r \<longrightarrow> FinalURI r = []"
    using that by (simp add: CloseQuery_def split: option.splits)
  moreover have "snd (KillQuery E c ctx response w) = w"
    if "\<forall>r. response = Some r \<longrightarrow> KillURI r = []"
    using that by (simp add: KillQuery_def split: option.splits)
  ultimately show ?thesis
    using CloseQuery_sends_only KillQuery_sends_only timeout_bounded by blast
qed

theorem cleanup_never_fails_witness:
  "CloseQuery sample_env sample_client ctx0 (Some final_resp) world0
     = (None,
        \<lparr>trace = [HTTPDo final_request, Sleep 1, HTTPDo final_request, Sleep 1,
                  HTTPDo final_request],
         sends = 3, loads = 0\<rparr>)
 \<and> fst (KillQuery sample_env sample_client ctx0 (Some final_resp) world0) = None
 \<and> CloseQuery sample_env sample_client ctx0 (Some zeroQueryResponse) world0 = (None, world0)
 \<and> KillQuery sample_env sample_client ctx0 None world0 = (None, world0)"
proof -
  have w: "snd (CloseQuery sample_env sample_client ctx0 (Some final_resp) world0)
     = \<lparr>trace = [HTTPDo final_request, Sleep 1, HTTPDo final_request, Sleep 1,
                HTTPDo final_request],
        sends = 3, loads = 0\<rparr>"
    by (simp add: model_defs sample_defs final_resp_def final_request_def fmt_nat.simps Let_def)
  have z: "\<forall>r. Some zeroQueryResponse = Some r \<longrightarrow> FinalURI r = []"
    by (simp add: zeroQueryResponse_def)
  have n: "\<forall>r. (None :: QueryResponse option) = Some r \<longrightarrow> KillURI r = []"
    by simp
  show ?thesis
    using w z n
      cleanup_never_fails [of sample_env sample_client ctx0 "Some final_resp" world0]
      cleanup_never_fails [of sample_env sample_client ctx0 "Some zeroQueryResponse" world0]
      cleanup_never_fails [of sample_env sample_client ctx0 None world0]
    by (simp add: prod_eq_iff)
qed

subsection \<open>Insert with a stage\<close>

lemma trackStats_sends_only: "sends_only Q w (trackStats c r w)"
  using sends_only_emit(1) [of "TrackStats a b" Q w for a b]
  by (simp add: trackStats_def sends_only_refl split: option.splits)

lemma applySessionState_apiEndpoint: "apiEndpoint (applySessionState E c r) = apiEndpoint c"
  by (simp add: applySessionState_def split: option.splits)

lemma PollQuery_sends_only:
  assumes "PollQuery E c ctx nextURI w = (res, c', w')"
  shows "sends_only (call_of ''GET'' (makeURL E c nextURI) None ctx) w w'"
proof -
  let ?f = "requestInto E c ctx ''GET'' nextURI None"
  obtain err s' where d: "DoRetry E ?f Page (zeroQueryResponse, w) = (err, s')"
    by (cases "DoRetry E ?f Page (zeroQueryResponse, w)")
  have 1: "sends_only (call_of ''GET'' (makeURL E c nextURI) None ctx)
             (snd (zeroQueryResponse, w)) (snd s')"
    using DoRetry_sends_only [OF _ d] requestInto_sends_only by blast
  have "w' = trackStats (applySessionState E c (Some (fst s'))) (Some (fst s')) (snd s')"
    using assms d by (auto simp: PollQuery_def Let_def split: prod.splits option.splits)
  then show ?thesis
    using 1 sends_only_trans [OF _ trackStats_sends_only] by simp
qed

lemma PollUntilQueryEnd_sends_only:
  "PollUntilQueryEnd fuel E c ctx resp w = (res, c', w') \<Longrightarrow>
     sends_only (\<lambda>r. req_method r = ''GET'') w w'"
proof (induction fuel arbitrary: c w)
  case 0
  then show ?case
    by (subst (asm) PollUntilQueryEnd.simps) (auto simp: sends_only_refl split: if_splits)
next
  case (Suc fuel)
  show ?case
  proof (cases "ReadFinished resp")
    case True
    then show ?thesis using Suc.prems
      by (subst (asm) PollUntilQueryEnd.simps) (auto simp: sends_only_refl)
  next
    case False
    obtain pr c1 w1 where p: "PollQuery E c ctx (NextURI resp) w = (pr, c1, w1)"
      by (cases "PollQuery E c ctx (NextURI resp) w") auto
    have s1: "sends_only (\<lambda>r. req_method r = ''GET'') w w1"
      using sends_only_mono [OF PollQuery_sends_only [OF p]] by (simp add: call_of_def)
    show ?thesis
    proof (cases "\<exists>page. pr = Inr page \<and> QueryResponse.Error page = None")
      case True
      then have "PollUntilQueryEnd fuel E c1 ctx resp w1 = (res, c', w')"
        using Suc.prems False p
        by (subst (asm) PollUntilQueryEnd.simps) (auto simp: Let_def)
      then show ?thesis
        using Suc.IH s1 sends_only_trans by blast
    next
      case no: False
      have "w' = w1"
        using Suc.prems False p no
        by (subst (asm) PollUntilQueryEnd.simps)
           (auto simp: Let_def split: sum.splits option.splits)
      then show ?thesis using s1 by simp
    qed
  qed
qed

lemma startQueryRequest_sends_only:
  assumes "startQueryRequest E c ctx request w = (res, c', w')"
  shows "sends_only (call_of ''POST'' (makeURL E c ''/v1/query'') (Some request) ctx) w w'"
proof -
  let ?f = "requestInto E (NextQuery c) ctx ''POST'' ''/v1/query'' (Some request)"
  obtain err s' where d: "DoRetry E ?f Query (zeroQueryResponse, w) = (err, s')"
    by (cases "DoRetry E ?f Query (zeroQueryResponse, w)")
  have u: "makeURL E (NextQuery c) ''/v1/query'' = makeURL E c ''/v1/query''"
    by (simp add: makeURL_def NextQuery_def Let_def split: option.splits)
  have 1: "sends_only (call_of ''POST'' (makeURL E c ''/v1/query'') (Some request) ctx)
             (snd (zeroQueryResponse, w)) (snd s')"
    using DoRetry_sends_only [OF _ d] requestInto_sends_only [of E "NextQuery c"] u by metis
  have "w' = snd s'
      \<or> w' = trackStats (applySessionState E (NextQuery c) (Some (fst s'))) (Some (fst s')) (snd s')"
    using assms d by (auto simp: startQueryRequest_def Let_def split: prod.splits option.splits)
  then show ?thesis
    using 1 sends_only_trans [OF _ trackStats_sends_only] by auto
qed


lemma CloseQuery_get:
  "sends_only (\<lambda>r. req_method r = ''GET'') w (snd (CloseQuery E c ctx (Some resp) w))"
  using sends_only_mono [OF CloseQuery_sends_only [of E c resp ctx w]]
  by (simp add: call_of_def)

lemma InsertWithStage_sends_only:
  assumes "InsertWithStage fuel E c ctx sql (Some stage) ffo co w = (res, c', w')"
  shows "sends_only
           (\<lambda>r. req_method r = ''POST'' \<longrightarrow> req_body r = Some (stageRequest c sql stage ffo co))
           w w'"
proof -
  let ?Q = "\<lambda>r. req_method r = ''POST'' \<longrightarrow> req_body r = Some (stageRequest c sql stage ffo co)"
  let ?rq = "stageRequest c sql stage ffo co"
  obtain sr c1 w1 where st: "startQueryRequest E c ctx ?rq w = (sr, c1, w1)"
    by (cases "startQueryRequest E c ctx ?rq w") auto
  have s1: "sends_only ?Q w w1"
    using sends_only_mono [OF startQueryRequest_sends_only [OF st]] by (simp add: call_of_def)
  have get: "sends_only ?Q a b" if "sends_only (\<lambda>r. req_method r = ''GET'') a b" for a b
    using sends_only_mono [OF that] by simp
  show ?thesis
  proof (cases sr)
    case (Inl e)
    then have "w' = w1"
      using assms st by (simp add: InsertWithStage_def)
    then show ?thesis using s1 by simp
  next
    case (Inr resp)
    show ?thesis
    proof (cases "QueryResponse.Error resp")
      case (Some qe)
      then have "w' = snd (CloseQuery E c1 ctx (Some resp) w1)"
        using assms st Inr by (auto simp: InsertWithStage_def)
      then show ?thesis
        using sends_only_trans [OF s1 get [OF CloseQuery_get]] by simp
    next
      case None
      obtain pr c2 w2 where p: "PollUntilQueryEnd fuel E c1 ctx resp w1 = (pr, c2, w2)"
        by (cases "PollUntilQueryEnd fuel E c1 ctx resp w1") auto
      have s2: "sends_only ?Q w w2"
        using sends_only_trans [OF s1 get [OF PollUntilQueryEnd_sends_only [OF p]]] .
      have "w' = w2 \<or> w' = snd (CloseQuery E c2 ctx (Some resp) w2)"
        using assms st Inr None p
        by (auto simp: InsertWithStage_def split: option.splits)
      then show ?thesis
        using s2 sends_only_trans [OF s2 get [OF CloseQuery_get]] by auto
    qed
  qed
qed

subsection \<open>The first request of a submission\<close>

lemma sends_only_extends: "sends_only Q w w' \<Longrightarrow> extends w w'"
  by (auto simp: sends_only_def extends_def)

lemma extends_trans: "extends a b \<Longrightarrow> extends b c \<Longrightarrow> extends a c"
  by (auto simp: extends_def)

lemma extends_after:
  assumes "trace b = trace a @ ev # evs" and "extends b c"
  shows "\<exists>evs'. trace c = trace a @ ev # evs'"
  using assms by (auto simp: extends_def)

text \<open>An attempt that builds its headers sends its request first.\<close>

lemma doRequest_loop_first:
  assumes mh: "makeHeaders E c ctx w = (Inr hs, w1)"
      and i: "i \<le> maxRetries"
      and run: "doRequest_loop E c ctx httpReq resp i w = (err, resp', w')"
  shows "\<exists>evs. trace w' = trace w1 @ HTTPDo (prepare E c httpReq hs) # evs"
proof -
  let ?rq = "prepare E c httpReq hs"
  obtain res w2 where cd: "cli_Do E ?rq w1 = (res, w2)"
    by (cases "cli_Do E ?rq w1")
  have t2: "trace w2 = trace w1 @ HTTPDo ?rq # []"
    using cli_Do_counts(3) [OF cd] by simp
  have "extends w2 w'"
  proof (cases "\<exists>ctype body. res = Response 401 ctype body
                  \<and> authMethod c = AuthMethodAccessToken \<and> i < maxRetries")
    case True
    then obtain ctype body where r: "res = Response 401 ctype body"
      and tok: "authMethod c = AuthMethodAccessToken" and lt: "i < maxRetries"
      by blast
    have rec: "doRequest_loop E c ctx ?rq resp (i + 1) (snd (LoadAccessToken c True w2))
                 = (err, resp', w')"
      using run i mh cd r tok lt
      by (subst (asm) doRequest_loop.simps) (simp add: Let_def)
    have q: "call_of (req_method ?rq) (req_url ?rq) (req_body ?rq) (req_ctx ?rq) ?rq"
      by (simp add: call_of_def)
    show ?thesis
      using sends_only_extends [OF LoadAccessToken_sends_only [of "\<lambda>r. True" w2 c True]]
        sends_only_extends [OF doRequest_loop_sends_only [OF q rec]] extends_trans
      by blast
  next
    case False
    have "w' = w2"
      using run i mh cd False
      by (subst (asm) doRequest_loop.simps)
         (auto simp: Let_def split: http_result.splits if_splits option.splits prod.splits)
    then show ?thesis by (simp add: extends_def)
  qed
  then show ?thesis
    using extends_after [OF t2] by blast
qed

lemma retry_Do_loop_after_first:
  assumes step: "\<forall>s e s'. f s = (e, s') \<longrightarrow> sends_only Q (snd s) (snd s')"
      and fs: "f s = (e, s1)" and n: "n < attempts"
      and run: "retry_Do_loop f retryIf delay attempts n errorLog s = (err, s')"
  shows "extends (snd s1) (snd s')"
proof (cases "\<exists>x. e = Some x \<and> retryIf (Some x) \<and> n \<noteq> attempts - 1")
  case True
  then obtain x where x: "e = Some x" "retryIf (Some x)" "n \<noteq> attempts - 1"
    by blast
  have rec: "retry_Do_loop f retryIf delay attempts (n + 1) (errorLog @ [x])
               (apsnd (time_Sleep delay) s1) = (err, s')"
    using run n fs x by (subst (asm) retry_Do_loop.simps) simp
  have "sends_only Q (snd (apsnd (time_Sleep delay) s1)) (snd s')"
    using retry_Do_loop_sends_only [OF step rec] .
  moreover have "extends (snd s1) (snd (apsnd (time_Sleep delay) s1))"
    by (simp add: extends_def time_Sleep_def emit_def)
  ultimately show ?thesis
    using sends_only_extends extends_trans by blast
next
  case False
  then have "s' = s1"
    using run n fs by (subst (asm) retry_Do_loop.simps) (auto split: option.splits if_splits)
  then show ?thesis by (simp add: extends_def)
qed


lemma NextQuery_keeps:
  "doRequestFunc (NextQuery c) = doRequestFunc c"
  "makeURL E (NextQuery c) path = makeURL E c path"
  "prepare E (NextQuery c) rq hs = prepare E c rq hs"
  by (simp_all add: NextQuery_def makeURL_def prepare_def Let_def split: option.splits)

text \<open>
  A submission whose first attempt builds its headers sends the request it was given:
  the first event after the headers is the POST of that request to \<^verbatim>\<open>/v1/query\<close>.
\<close>

lemma startQueryRequest_first:
  assumes nomock: "doRequestFunc c = None"
      and marshal: "marshalRequest E request = None"
      and newreq: "newRequest E ''POST'' (makeURL E c ''/v1/query'') = None"
      and mh: "makeHeaders E (NextQuery c) ctx w = (Inr hs, w1)"
      and run: "startQueryRequest E c ctx request w = (res, c', w')"
  shows "\<exists>evs. trace w' =
           trace w1 @
           HTTPDo (prepare E c
                     \<lparr>req_method = ''POST'', req_url = makeURL E c ''/v1/query'', req_host = [],
                      req_header = [], req_body = Some request, req_ctx = ctx\<rparr> hs) # evs"
proof -
  let ?rq = "\<lparr>req_method = ''POST'', req_url = makeURL E c ''/v1/query'', req_host = [],
              req_header = [], req_body = Some request, req_ctx = ctx\<rparr>"
  let ?f = "requestInto E (NextQuery c) ctx ''POST'' ''/v1/query'' (Some request)"
  obtain e s1 where fs: "?f (zeroQueryResponse, w) = (e, s1)"
    by (cases "?f (zeroQueryResponse, w)")
  obtain e0 r0 w0 where lp:
    "doRequest_loop E (NextQuery c) ctx ?rq (Some zeroQueryResponse) 1 w = (e0, r0, w0)"
    by (cases "doRequest_loop E (NextQuery c) ctx ?rq (Some zeroQueryResponse) 1 w") auto
  have "snd s1 = w0"
    using fs lp nomock marshal newreq
    by (auto simp: requestInto_def doRequest_def NextQuery_keeps Let_def)
  moreover have "\<exists>evs. trace w0 = trace w1 @ HTTPDo (prepare E (NextQuery c) ?rq hs) # evs"
    using doRequest_loop_first [OF mh _ lp] by (simp add: maxRetries_def)
  ultimately obtain evs where t1: "trace (snd s1) = trace w1 @ HTTPDo (prepare E c ?rq hs) # evs"
    by (auto simp: NextQuery_keeps)
  obtain err s' where d: "DoRetry E ?f Query (zeroQueryResponse, w) = (err, s')"
    by (cases "DoRetry E ?f Query (zeroQueryResponse, w)")
  have step: "\<forall>s e s'. ?f s = (e, s') \<longrightarrow>
      sends_only (call_of ''POST'' (makeURL E (NextQuery c) ''/v1/query'') (Some request) ctx)
        (snd s) (snd s')"
    using requestInto_sends_only by blast
  have rl: "retry_Do_loop ?f (RetryIf E Query) 2 5 0 [] (zeroQueryResponse, w) = (err, s')"
    using d by (simp add: DoRetry_def retry_Do_def del: retry_Do_loop.simps)
  have e1: "extends (snd s1) (snd s')"
    by (rule retry_Do_loop_after_first [OF step fs _ rl]) simp
  have "w' = snd s'
      \<or> w' = trackStats (applySessionState E (NextQuery c) (Some (fst s'))) (Some (fst s')) (snd s')"
    using run d by (auto simp: startQueryRequest_def Let_def split: prod.splits option.splits)
  then have "extends (snd s') w'"
    using sends_only_extends [OF trackStats_sends_only [of "\<lambda>r. True"]]
    by (auto simp: extends_def)
  then show ?thesis
    using extends_after [OF t1 extends_trans [OF e1]] by blast
qed

text \<open>
  \<^verbatim>\<open>InsertWithStage\<close> with a stage is the submission of the request built, followed by
  GETs only (the polls and the finalize call); a failed submission is its result.
\<close>

lemma InsertWithStage_run:
  assumes "InsertWithStage fuel E c ctx sql (Some stage) ffo co w = (res, c', w')"
  shows "\<exists>sr c1 w1.
           startQueryRequest E c ctx (stageRequest c sql stage ffo co) w = (sr, c1, w1)
         \<and> sends_only (\<lambda>r. req_method r = ''GET'') w1 w'
         \<and> (\<forall>err. sr = Inl err \<longrightarrow> res = Some (Inl err) \<and> c' = c1 \<and> w' = w1)"
proof -
  let ?rq = "stageRequest c sql stage ffo co"
  obtain sr c1 w1 where st: "startQueryRequest E c ctx ?rq w = (sr, c1, w1)"
    by (cases "startQueryRequest E c ctx ?rq w") auto
  have "sends_only (\<lambda>r. req_method r = ''GET'') w1 w'
      \<and> (\<forall>err. sr = Inl err \<longrightarrow> res = Some (Inl err) \<and> c' = c1 \<and> w' = w1)"
  proof (cases sr)
    case (Inl e)
    then show ?thesis
      using assms st by (auto simp: InsertWithStage_def sends_only_refl)
  next
    case (Inr resp)
    show ?thesis
    proof (cases "QueryResponse.Error resp")
      case (Some qe)
      then have "w' = snd (CloseQuery E c1 ctx (Some resp) w1)"
        using assms st Inr by (auto simp: InsertWithStage_def)
      then show ?thesis
        using CloseQuery_get Inr by simp
    next
      case None
      obtain pr c2 w2 where p: "PollUntilQueryEnd fuel E c1 ctx resp w1 = (pr, c2, w2)"
        by (cases "PollUntilQueryEnd fuel E c1 ctx resp w1") auto
      note s2 = PollUntilQueryEnd_sends_only [OF p]
      have "w' = w2 \<or> w' = snd (CloseQuery E c2 ctx (Some resp) w2)"
        using assms st Inr None p
        by (auto simp: InsertWithStage_def split: option.splits)
      then show ?thesis
        using s2 sends_only_trans [OF s2 CloseQuery_get] Inr by auto
    qed
  qed
  then show ?thesis using st by blast
qed

text \<open>
  C10. For a call of \<^verbatim>\<open>InsertWithStage\<close> with a stage, the request built has a stage
  attachment with the stage's location; with nil file-format options its format block
  is exactly type=CSV, field_delimiter=",", record_delimiter="\n" (a line feed),
  skip_header="0" and empty_field_as set to the client's substitute; with nil copy
  options its copy block is exactly purge=true; options the caller supplies are taken
  as they are. The call hands that request to \<^verbatim>\<open>startQueryRequest\<close>: it is the submission
  of the request followed by GETs only, a failed submission is the call's result, every
  POST the call sends carries the request as its body, and when the first attempt can
  build its headers the first request sent is the POST of the request to
  \<^verbatim>\<open>/v1/query\<close>.
\<close>

theorem InsertWithStage_defaults:
  assumes "InsertWithStage fuel E c ctx sql (Some stage) ffo co w = (res, c', w')"
  shows "\<exists>sa. StageAttachment (stageRequest c sql stage ffo co) = Some sa
          \<and> SQL (stageRequest c sql stage ffo co) = sql
          \<and> Location sa = ''@'' @ Name stage @ ''/'' @ Path stage
          \<and> (ffo = None \<longrightarrow>
                FileFormatOptions sa ''type'' = Some ''CSV''
              \<and> FileFormatOptions sa ''field_delimiter'' = Some '',''
              \<and> FileFormatOptions sa ''record_delimiter'' = Some [CHR 0x0A]
              \<and> FileFormatOptions sa ''skip_header'' = Some ''0''
              \<and> FileFormatOptions sa ''empty_field_as'' = Some (EmptyFieldAs c)
              \<and> dom (FileFormatOptions sa)
                  = {''type'', ''field_delimiter'', ''record_delimiter'', ''skip_header'',
                     ''empty_field_as''})
          \<and> (co = None \<longrightarrow> CopyOptions sa = [''purge'' \<mapsto> ''true''])
          \<and> (\<forall>m. ffo = Some m \<longrightarrow> FileFormatOptions sa = m)
          \<and> (\<forall>m. co = Some m \<longrightarrow> CopyOptions sa = m)
          \<and> sends_only
               (\<lambda>r. req_method r = ''POST'' \<longrightarrow>
                      req_body r = Some (stageRequest c sql stage ffo co))
               w w'
          \<and> (\<exists>sr c1 w1.
                startQueryRequest E c ctx (stageRequest c sql stage ffo co) w = (sr, c1, w1)
              \<and> sends_only (\<lambda>r. req_method r = ''GET'') w1 w'
              \<and> (\<forall>err. sr = Inl err \<longrightarrow> res = Some (Inl err) \<and> c' = c1 \<and> w' = w1))
          \<and> (\<forall>hs wh.
                doRequestFunc c = None
              \<and> marshalRequest E (stageRequest c sql stage ffo co) = None
              \<and> newRequest E ''POST'' (makeURL E c ''/v1/query'') = None
              \<and> makeHeaders E (NextQuery c) ctx w = (Inr hs, wh) \<longrightarrow>
                (\<exists>evs. trace w' =
                   trace wh @
                   HTTPDo (prepare E c
                             \<lparr>req_method = ''POST'', req_url = makeURL E c ''/v1/query'',
                              req_host = [], req_header = [],
                              req_body = Some (stageRequest c sql stage ffo co),
                              req_ctx = ctx\<rparr> hs) # evs))"
proof -
  let ?rq = "stageRequest c sql stage ffo co"
  obtain sr c1 w1 where st: "startQueryRequest E c ctx ?rq w = (sr, c1, w1)"
    and get: "sends_only (\<lambda>r. req_method r = ''GET'') w1 w'"
    and fail: "\<forall>err. sr = Inl err \<longrightarrow> res = Some (Inl err) \<and> c' = c1 \<and> w' = w1"
    using InsertWithStage_run [OF assms] by blast
  have first: "\<exists>evs. trace w' =
                   trace wh @
                   HTTPDo (prepare E c
                             \<lparr>req_method = ''POST'', req_url = makeURL E c ''/v1/query'',
                              req_host = [], req_header = [],
                              req_body = Some ?rq, req_ctx = ctx\<rparr> hs) # evs"
    if h: "doRequestFunc c = None" "marshalRequest E ?rq = None"
      "newRequest E ''POST'' (makeURL E c ''/v1/query'') = None"
      "makeHeaders E (NextQuery c) ctx w = (Inr hs, wh)" for hs wh
  proof -
    obtain evs where "trace w1 =
        trace wh @
        HTTPDo (prepare E c
                  \<lparr>req_method = ''POST'', req_url = makeURL E c ''/v1/query'',
                   req_host = [], req_header = [],
                   req_body = Some ?rq, req_ctx = ctx\<rparr> hs) # evs"
      using startQueryRequest_first [OF h st] by blast
    then show ?thesis
      using extends_after sends_only_extends [OF get] by blast
  qed
  define sa where "sa = \<lparr>Location = StageLocation_String stage,
      FileFormatOptions = (case ffo of None \<Rightarrow> NewDefaultCSVFormatOptions c | Some m \<Rightarrow> m),
      CopyOptions = (case co of None \<Rightarrow> NewDefaultCopyOptions c | Some m \<Rightarrow> m)\<rparr>"
  have a1: "StageAttachment ?rq = Some sa" and a2: "SQL ?rq = sql"
    and a3: "Location sa = ''@'' @ Name stage @ ''/'' @ Path stage"
    by (simp_all add: sa_def stageRequest_def Let_def StageLocation_String_def)
  have a4: "ffo = None \<longrightarrow>
                FileFormatOptions sa ''type'' = Some ''CSV''
              \<and> FileFormatOptions sa ''field_delimiter'' = Some '',''
              \<and> FileFormatOptions sa ''record_delimiter'' = Some [CHR 0x0A]
              \<and> FileFormatOptions sa ''skip_header'' = Some ''0''
              \<and> FileFormatOptions sa ''empty_field_as'' = Some (EmptyFieldAs c)
              \<and> dom (FileFormatOptions sa)
                  = {''type'', ''field_delimiter'', ''record_delimiter'', ''skip_header'',
                     ''empty_field_as''}"
    by (auto simp: sa_def NewDefaultCSVFormatOptions_def EMPTY_FIELD_AS_def)
  have a5: "co = None \<longrightarrow> CopyOptions sa = [''purge'' \<mapsto> ''true'']"
    by (simp add: sa_def NewDefaultCopyOptions_def PURGE_def)
  have a6: "\<forall>m. ffo = Some m \<longrightarrow> FileFormatOptions sa = m"
    and a7: "\<forall>m. co = Some m \<longrightarrow> CopyOptions sa = m"
    by (simp_all add: sa_def)
  note a8 = InsertWithStage_sends_only [OF assms]
  have a9: "\<exists>sr c1 w1.
                startQueryRequest E c ctx (stageRequest c sql stage ffo co) w = (sr, c1, w1)
              \<and> sends_only (\<lambda>r. req_method r = ''GET'') w1 w'
              \<and> (\<forall>err. sr = Inl err \<longrightarrow> res = Some (Inl err) \<and> c' = c1 \<and> w' = w1)"
    using st get fail by blast
  have a10: "\<forall>hs wh.
                doRequestFunc c = None
              \<and> marshalRequest E (stageRequest c sql stage ffo co) = None
              \<and> newRequest E ''POST'' (makeURL E c ''/v1/query'') = None
              \<and> makeHeaders E (NextQuery c) ctx w = (Inr hs, wh) \<longrightarrow>
                (\<exists>evs. trace w' =
                   trace wh @
                   HTTPDo (prepare E c
                             \<lparr>req_method = ''POST'', req_url = makeURL E c ''/v1/query'',
                              req_host = [], req_header = [],
                              req_body = Some (stageRequest c sql stage ffo co),
                              req_ctx = ctx\<rparr> hs) # evs)"
    using first by blast
  show ?thesis
    using a1 a2 a3 a4 a5 a6 a7 a8 a9 a10
    by (intro exI [of _ sa] conjI) assumption+
qed

lemma InsertWithStage_no_stage:
  "InsertWithStage fuel E c ctx sql None ffo co w
     = (Some (Inl (ErrorsNew ''stage location required for insert with stage'')), c, w)"
  by (simp add: InsertWithStage_def)

theorem InsertWithStage_defaults_witness:
  "sends (snd (snd (InsertWithStage 0 sample_env sample_client ctx0 ''INSERT INTO t VALUES''
                      (Some stage0) None None world0))) = 5
 \<and> (\<exists>sa. StageAttachment (stageRequest sample_client ''INSERT INTO t VALUES'' stage0 None None)
            = Some sa
        \<and> Location sa = ''@~/upload/data.csv''
        \<and> FileFormatOptions sa ''type'' = Some ''CSV''
        \<and> FileFormatOptions sa ''field_delimiter'' = Some '',''
        \<and> FileFormatOptions sa ''skip_header'' = Some ''0''
        \<and> CopyOptions sa ''purge'' = Some ''true'')
 \<and> sends_only
       (\<lambda>r. req_method r = ''POST'' \<longrightarrow>
              req_body r = Some (stageRequest sample_client ''INSERT INTO t VALUES'' stage0 None None))
       world0
       (snd (snd (InsertWithStage 0 sample_env sample_client ctx0 ''INSERT INTO t VALUES''
                    (Some stage0) None None world0)))
 \<and> req_body insert_request
       = Some (stageRequest sample_client ''INSERT INTO t VALUES'' stage0 None None)
 \<and> (\<exists>evs. trace (snd (snd (InsertWithStage 0 sample_env sample_client ctx0
                               ''INSERT INTO t VALUES'' (Some stage0) None None world0)))
              = HTTPDo insert_request # evs)
 \<and> snd (snd (InsertWithStage 0 sample_env sample_client ctx0 ''INSERT INTO t VALUES''
                (Some stage0) None None world0))
       = \<lparr>trace = [HTTPDo insert_request, Sleep 2, HTTPDo insert_request, Sleep 2,
                  HTTPDo insert_request, Sleep 2, HTTPDo insert_request, Sleep 2,
                  HTTPDo insert_request],
          sends = 5, loads = 0\<rparr>"
proof -
  let ?I = "InsertWithStage 0 sample_env sample_client ctx0 ''INSERT INTO t VALUES''
              (Some stage0) None None world0"
  let ?rq = "stageRequest sample_client ''INSERT INTO t VALUES'' stage0 None None"
  let ?hs = "[(WarehouseRoute, ''warehouse''), (UserAgent, ''databend-go/v0.7.0''),
              (DatabendQueryIDHeader, ''5e1f.1''), (Authorization, ''Basic cm9vdDpwdw=='')]"
  have run: "?I = (fst ?I, fst (snd ?I), snd (snd ?I))"
    by simp
  have w: "snd (snd ?I)
       = \<lparr>trace = [HTTPDo insert_request, Sleep 2, HTTPDo insert_request, Sleep 2,
                  HTTPDo insert_request, Sleep 2, HTTPDo insert_request, Sleep 2,
                  HTTPDo insert_request],
          sends = 5, loads = 0\<rparr>"
    by (simp add: InsertWithStage_def model_defs sample_defs fmt_nat.simps Let_def
        insert_request_def)
  have n: "sends (snd (snd ?I)) = 5"
    using w by simp
  have h: "doRequestFunc sample_client = None \<and> marshalRequest sample_env ?rq = None
      \<and> newRequest sample_env ''POST'' (makeURL sample_env sample_client ''/v1/query'') = None
      \<and> makeHeaders sample_env (NextQuery sample_client) ctx0 world0 = (Inr ?hs, world0)"
    by (simp add: model_defs sample_defs fmt_nat.simps Let_def)
  have p: "prepare sample_env sample_client
             \<lparr>req_method = ''POST'', req_url = makeURL sample_env sample_client ''/v1/query'',
              req_host = [], req_header = [], req_body = Some ?rq, req_ctx = ctx0\<rparr> ?hs
           = insert_request"
    by (simp add: model_defs sample_defs insert_request_def Let_def)
  obtain sa where sa:
    "StageAttachment ?rq = Some sa"
    "Location sa = ''@'' @ Name stage0 @ ''/'' @ Path stage0"
    "FileFormatOptions sa ''type'' = Some ''CSV''"
    "FileFormatOptions sa ''field_delimiter'' = Some '',''"
    "FileFormatOptions sa ''skip_header'' = Some ''0''"
    "CopyOptions sa = [''purge'' \<mapsto> ''true'']"
    and so: "sends_only (\<lambda>r. req_method r = ''POST'' \<longrightarrow> req_body r = Some ?rq)
               world0 (snd (snd ?I))"
    and first: "\<forall>hs wh.
                doRequestFunc sample_client = None
              \<and> marshalRequest sample_env ?rq = None
              \<and> newRequest sample_env ''POST'' (makeURL sample_env sample_client ''/v1/query'')
                  = None
              \<and> makeHeaders sample_env (NextQuery sample_client) ctx0 world0 = (Inr hs, wh) \<longrightarrow>
                (\<exists>evs. trace (snd (snd ?I)) =
                   trace wh @
                   HTTPDo (prepare sample_env sample_client
                             \<lparr>req_method = ''POST'',
                              req_url = makeURL sample_env sample_client ''/v1/query'',
                              req_host = [], req_header = [],
                              req_body = Some ?rq, req_ctx = ctx0\<rparr> hs) # evs)"
    using InsertWithStage_defaults [OF run] by blast
  have f: "\<exists>evs. trace (snd (snd ?I)) = HTTPDo insert_request # evs"
    using first h p by (simp add: world0_def)
  have loc: "Location sa = ''@~/upload/data.csv''"
    using sa(2) by (simp add: stage0_def)
  have purge: "CopyOptions sa ''purge'' = Some ''true''"
    using sa(6) by simp
  have b: "req_body insert_request = Some ?rq"
    by (simp add: insert_request_def)
  have att: "\<exists>sa. StageAttachment ?rq = Some sa
        \<and> Location sa = ''@~/upload/data.csv''
        \<and> FileFormatOptions sa ''type'' = Some ''CSV''
        \<and> FileFormatOptions sa ''field_delimiter'' = Some '',''
        \<and> FileFormatOptions sa ''skip_header'' = Some ''0''
        \<and> CopyOptions sa ''purge'' = Some ''true''"
    using sa(1,3,4,5) loc purge by blast
  show ?thesis
    using n att so b f w by (intro conjI) assumption+
qed

end
